theory Spec2Isabelle
  imports Main "HOL-Library.Word"
begin

unbundle bit_operations_syntax

section \<open>The host graph: operations, values, blocks\<close>

text \<open>
  The pass of \<^verbatim>\<open>PrepareForEmission.cpp\<close> mutates an MLIR graph in place. The graph is
  modelled as an explicit store: operations and blocks live at stable indices, every value
  carries its use list (most recent use first, as MLIR's intrusive use lists have it), and
  each mutation of the C++ code is a function from store to store.
\<close>

datatype dialect = CombDialect | SVDialect | HWDialect | OtherDialect string

datatype opname =
    AddOp | SubOp | MulOp | AndOp | OrOp | XorOp
  | ConstantOp | BitcastOp | OutputOp | InstanceOp | HWModuleOp
  | StructExplodeOp | StructExtractOp
  | WireOp | RegOp | LogicOp | ReadInOutOp | AssignOp | BPAssignOp
  | XMROp | XMRRefOp | AlwaysOp | AlwaysFFOp | IfDefProceduralOp
  | OtherOp dialect string

fun getDialect :: "opname \<Rightarrow> dialect" where
  "getDialect AddOp = CombDialect"
| "getDialect SubOp = CombDialect"
| "getDialect MulOp = CombDialect"
| "getDialect AndOp = CombDialect"
| "getDialect OrOp = CombDialect"
| "getDialect XorOp = CombDialect"
| "getDialect ConstantOp = HWDialect"
| "getDialect BitcastOp = HWDialect"
| "getDialect OutputOp = HWDialect"
| "getDialect InstanceOp = HWDialect"
| "getDialect HWModuleOp = HWDialect"
| "getDialect StructExplodeOp = HWDialect"
| "getDialect StructExtractOp = HWDialect"
| "getDialect (OtherOp d n) = d"
| "getDialect _ = SVDialect"

datatype ty =
    IntegerType nat
  | InOutType ty
  | StructType "(string \<times> ty) list"
  | InterfaceType
  | OtherType

text \<open>An \<^verbatim>\<open>APInt\<close>: a bit width and the unsigned reading of the bits.\<close>

datatype apint = APInt nat nat

datatype attr = StringAttr string | UnitAttr | IntegerAttr apint

type_synonym opid = nat
type_synonym blockid = nat

datatype val = BlockArgument blockid nat | OpResult opid nat

text \<open>A use is an operand slot: the owning operation and the operand number.\<close>

type_synonym opoperand = "opid \<times> nat"

record operation =
  opName :: opname
  operands :: "val list"
  resultTypes :: "ty list"
  attrs :: "(string \<times> attr) list"
  regions :: "blockid option list"
  successors :: "blockid list"
  opBlock :: "blockid option"

record block =
  blockArgTypes :: "ty list"
  blockOps :: "opid list"
  blockParentOp :: "opid option"

record ir =
  ops :: "opid \<Rightarrow> operation option"
  blocks :: "blockid \<Rightarrow> block option"
  useList :: "val \<Rightarrow> opoperand list"
  nextOp :: opid
  loadedDialects :: "string list"

definition nullOp :: operation where
  "nullOp = \<lparr>opName = OtherOp (OtherDialect []) [], operands = [], resultTypes = [],
             attrs = [], regions = [], successors = [], opBlock = None\<rparr>"

definition nullBlock :: block where
  "nullBlock = \<lparr>blockArgTypes = [], blockOps = [], blockParentOp = None\<rparr>"

definition opOf :: "ir \<Rightarrow> opid \<Rightarrow> operation" where
  "opOf s i = (case ops s i of Some p \<Rightarrow> p | None \<Rightarrow> nullOp)"

definition blockOf :: "ir \<Rightarrow> blockid \<Rightarrow> block" where
  "blockOf s b = (case blocks s b of Some k \<Rightarrow> k | None \<Rightarrow> nullBlock)"

definition updOp :: "opid \<Rightarrow> (operation \<Rightarrow> operation) \<Rightarrow> ir \<Rightarrow> ir" where
  "updOp i f s = s\<lparr>ops := (ops s)(i := map_option f (ops s i))\<rparr>"

definition updBlock :: "blockid \<Rightarrow> (opid list \<Rightarrow> opid list) \<Rightarrow> ir \<Rightarrow> ir" where
  "updBlock b f s =
     s\<lparr>blocks := (blocks s)(b := map_option (\<lambda>k. k\<lparr>blockOps := f (blockOps k)\<rparr>) (blocks s b))\<rparr>"

subsection \<open>Attributes\<close>

definition getAttr :: "operation \<Rightarrow> string \<Rightarrow> attr option" where
  "getAttr p n = map_of (attrs p) n"

definition removeAttrL :: "string \<Rightarrow> (string \<times> attr) list \<Rightarrow> (string \<times> attr) list" where
  "removeAttrL n kvs = filter (\<lambda>kv. fst kv \<noteq> n) kvs"

definition setAttrL :: "string \<Rightarrow> attr \<Rightarrow> (string \<times> attr) list \<Rightarrow> (string \<times> attr) list" where
  "setAttrL n a kvs = removeAttrL n kvs @ [(n, a)]"

definition removeAttr :: "opid \<Rightarrow> string \<Rightarrow> ir \<Rightarrow> ir" where
  "removeAttr i n s = updOp i (\<lambda>p. p\<lparr>attrs := removeAttrL n (attrs p)\<rparr>) s"

definition setAttr :: "opid \<Rightarrow> string \<Rightarrow> attr \<Rightarrow> ir \<Rightarrow> ir" where
  "setAttr i n a s = updOp i (\<lambda>p. p\<lparr>attrs := setAttrL n a (attrs p)\<rparr>) s"

subsection \<open>Use lists\<close>

definition getUses :: "ir \<Rightarrow> val \<Rightarrow> opoperand list" where
  "getUses s v = useList s v"

definition opResults :: "ir \<Rightarrow> opid \<Rightarrow> val list" where
  "opResults s i = map (OpResult i) [0..<length (resultTypes (opOf s i))]"

text \<open>\<^verbatim>\<open>op->getUses()\<close>: the uses of every result, result by result.\<close>

definition opUses :: "ir \<Rightarrow> opid \<Rightarrow> opoperand list" where
  "opUses s i = concat (map (useList s) (opResults s i))"

definition getUsers :: "ir \<Rightarrow> opid \<Rightarrow> opid list" where
  "getUsers s i = map fst (opUses s i)"

definition hasOneUse :: "ir \<Rightarrow> opid \<Rightarrow> bool" where
  "hasOneUse s i = (length (opUses s i) = 1)"

definition use_empty :: "ir \<Rightarrow> opid \<Rightarrow> bool" where
  "use_empty s i = (opUses s i = [])"

definition valHasOneUse :: "ir \<Rightarrow> val \<Rightarrow> bool" where
  "valHasOneUse s v = (length (useList s v) = 1)"

definition addUse :: "opoperand \<Rightarrow> val \<Rightarrow> ir \<Rightarrow> ir" where
  "addUse u v s = s\<lparr>useList := (useList s)(v := u # useList s v)\<rparr>"

definition dropUse :: "opoperand \<Rightarrow> val \<Rightarrow> ir \<Rightarrow> ir" where
  "dropUse u v s = s\<lparr>useList := (useList s)(v := removeAll u (useList s v))\<rparr>"

fun addOperandUses :: "opid \<Rightarrow> nat \<Rightarrow> val list \<Rightarrow> ir \<Rightarrow> ir" where
  "addOperandUses i k [] s = s"
| "addOperandUses i k (v # vs) s = addOperandUses i (Suc k) vs (addUse (i, k) v s)"

fun dropOperandUses :: "opid \<Rightarrow> nat \<Rightarrow> val list \<Rightarrow> ir \<Rightarrow> ir" where
  "dropOperandUses i k [] s = s"
| "dropOperandUses i k (v # vs) s = dropOperandUses i (Suc k) vs (dropUse (i, k) v s)"

text \<open>\<^verbatim>\<open>use.set(v)\<close>: unlink the slot from the old value's list, link it at the head of the
  new value's list, and store the new operand.\<close>

definition setUse :: "opoperand \<Rightarrow> val \<Rightarrow> ir \<Rightarrow> ir" where
  "setUse u v s =
     (let i = fst u; k = snd u; old = operands (opOf s i) ! k
      in if k < length (operands (opOf s i))
         then updOp i (\<lambda>p. p\<lparr>operands := (operands p)[k := v]\<rparr>) (addUse u v (dropUse u old s))
         else s)"

definition setOperand :: "opid \<Rightarrow> nat \<Rightarrow> val \<Rightarrow> ir \<Rightarrow> ir" where
  "setOperand i k v s = setUse (i, k) v s"

text \<open>\<^verbatim>\<open>replaceAllUsesWith\<close>: every use of the old value, in use-list order, is set to
  the new one.\<close>

definition replaceAllUsesWith :: "val \<Rightarrow> val \<Rightarrow> ir \<Rightarrow> ir" where
  "replaceAllUsesWith old new s = fold (\<lambda>u. setUse u new) (useList s old) s"

subsection \<open>Creating, placing and erasing operations\<close>

text \<open>An insertion point is a block and the operation before which new operations go
  (\<open>None\<close>: the end of the block).\<close>

type_synonym inspt = "blockid \<times> opid option"

fun insertBeforeL :: "opid \<Rightarrow> opid option \<Rightarrow> opid list \<Rightarrow> opid list" where
  "insertBeforeL i None xs = xs @ [i]"
| "insertBeforeL i (Some t) xs =
     takeWhile (\<lambda>x. x \<noteq> t) xs @ i # dropWhile (\<lambda>x. x \<noteq> t) xs"

text \<open>\<^verbatim>\<open>Operation::create\<close>: a fresh, detached operation whose operands are linked into
  the use lists.\<close>

definition createOp ::
  "opname \<Rightarrow> val list \<Rightarrow> ty list \<Rightarrow> (string \<times> attr) list \<Rightarrow> ir \<Rightarrow> opid \<times> ir" where
  "createOp n vs ts as s =
     (let i = nextOp s;
          p = \<lparr>opName = n, operands = vs, resultTypes = ts, attrs = as, regions = [],
               successors = [], opBlock = None\<rparr>;
          s1 = s\<lparr>ops := (ops s)(i \<mapsto> p), nextOp := Suc i\<rparr>
      in (i, addOperandUses i 0 vs s1))"

definition unlinkOp :: "opid \<Rightarrow> ir \<Rightarrow> ir" where
  "unlinkOp i s =
     (case opBlock (opOf s i) of
        None \<Rightarrow> s
      | Some b \<Rightarrow> updOp i (\<lambda>p. p\<lparr>opBlock := None\<rparr>) (updBlock b (removeAll i) s))"

definition insertOp :: "inspt \<Rightarrow> opid \<Rightarrow> ir \<Rightarrow> ir" where
  "insertOp ip i s =
     updOp i (\<lambda>p. p\<lparr>opBlock := Some (fst ip)\<rparr>) (updBlock (fst ip) (insertBeforeL i (snd ip)) s)"

definition builderCreate ::
  "inspt \<Rightarrow> opname \<Rightarrow> val list \<Rightarrow> ty list \<Rightarrow> (string \<times> attr) list \<Rightarrow> ir \<Rightarrow> opid \<times> ir" where
  "builderCreate ip n vs ts as s =
     (let (i, s1) = createOp n vs ts as s in (i, insertOp ip i s1))"

text \<open>The operation following \<open>i\<close> in its block (\<open>None\<close>: \<open>i\<close> is last).\<close>

definition nextNode :: "ir \<Rightarrow> opid \<Rightarrow> opid option" where
  "nextNode s i =
     (case opBlock (opOf s i) of
        None \<Rightarrow> None
      | Some b \<Rightarrow> (case dropWhile (\<lambda>x. x \<noteq> i) (blockOps (blockOf s b)) of
                    _ # y # _ \<Rightarrow> Some y
                  | _ \<Rightarrow> None))"

definition moveBeforeIt :: "opid \<Rightarrow> inspt \<Rightarrow> ir \<Rightarrow> ir" where
  "moveBeforeIt i ip s = (if snd ip = Some i then s else insertOp ip i (unlinkOp i s))"

definition moveBefore :: "opid \<Rightarrow> opid \<Rightarrow> ir \<Rightarrow> ir" where
  "moveBefore i t s =
     (case opBlock (opOf s t) of
        None \<Rightarrow> s
      | Some b \<Rightarrow> moveBeforeIt i (b, Some t) s)"

definition moveAfter :: "opid \<Rightarrow> opid \<Rightarrow> ir \<Rightarrow> ir" where
  "moveAfter i t s =
     (case opBlock (opOf s t) of
        None \<Rightarrow> s
      | Some b \<Rightarrow> moveBeforeIt i (b, nextNode s t) s)"

text \<open>\<^verbatim>\<open>op.erase()\<close>: the operation leaves its block, its operand slots leave the use
  lists, and the index is freed.\<close>

definition eraseOp :: "opid \<Rightarrow> ir \<Rightarrow> ir" where
  "eraseOp i s =
     (let s1 = unlinkOp i s;
          s2 = dropOperandUses i 0 (operands (opOf s1 i)) s1
      in s2\<lparr>ops := (ops s2)(i := None)\<rparr>)"

definition getDefiningOp :: "val \<Rightarrow> opid option" where
  "getDefiningOp v = (case v of BlockArgument b k \<Rightarrow> None | OpResult i k \<Rightarrow> Some i)"

text \<open>The type of a value: of a block argument, the type the block declares for it; of an
  operation's result, the operation's result type at that position. A value that is not
  there (\<^verbatim>\<open>op.getResult(0)\<close> of an operation with no result) has none: the source aborts.\<close>

definition getType :: "ir \<Rightarrow> val \<Rightarrow> ty option" where
  "getType s v =
     (case v of
        BlockArgument b k \<Rightarrow> (if k < length (blockArgTypes (blockOf s b))
                              then Some (blockArgTypes (blockOf s b) ! k) else None)
      | OpResult i k \<Rightarrow> (if k < length (resultTypes (opOf s i))
                         then Some (resultTypes (opOf s i) ! k) else None))"

definition getParentOp :: "ir \<Rightarrow> opid \<Rightarrow> opid option" where
  "getParentOp s i =
     (case opBlock (opOf s i) of
        None \<Rightarrow> None
      | Some b \<Rightarrow> blockParentOp (blockOf s b))"

section \<open>Operator-tree balancing\<close>

text \<open>
  \<^verbatim>\<open>lowerFullyAssociativeOp\<close> (lines 256-291). The operand range is a list; the store and
  the vector \<^verbatim>\<open>newOps\<close> are threaded through. The empty range is the source's
  \<^verbatim>\<open>assert(0)\<close>: the result \<open>None\<close>.
\<close>

definition saveTopLevelName :: "opid \<Rightarrow> ir \<Rightarrow> attr option \<times> ir" where
  "saveTopLevelName op s =
     (let name = getAttr (opOf s op) ''sv.namehint''
      in (name, if name \<noteq> None then removeAttr op ''sv.namehint'' s else s))"

text \<open>Lines 280-290: the new binary node, placed before \<open>op\<close>, given the saved name and
  the \<^verbatim>\<open>twoState\<close> marker that \<open>op\<close> carries.\<close>

definition createBinaryNode ::
  "opid \<Rightarrow> attr option \<Rightarrow> val \<Rightarrow> val \<Rightarrow> opid list \<Rightarrow> ir \<Rightarrow> (val \<times> opid list \<times> ir) option" where
  "createBinaryNode op name lhs rhs newOps s =
     (case (getType s (OpResult op 0), opBlock (opOf s op)) of
        (Some t, Some b) \<Rightarrow>
         (let (newOp, s1) = createOp (opName (opOf s op)) [lhs, rhs] [t] [] s;
              s2 = insertOp (b, Some op) newOp s1;
              s3 = (case name of Some a \<Rightarrow> setAttr newOp ''sv.namehint'' a s2 | None \<Rightarrow> s2);
              s4 = (case getAttr (opOf s3 op) ''twoState'' of
                      Some t \<Rightarrow> setAttr newOp ''twoState'' t s3
                    | None \<Rightarrow> s3)
          in Some (OpResult newOp 0, newOps @ [newOp], s4))
      | _ \<Rightarrow> None)"

function lowerFullyAssociativeOp ::
  "opid \<Rightarrow> val list \<Rightarrow> opid list \<Rightarrow> ir \<Rightarrow> (val \<times> opid list \<times> ir) option" where
  "lowerFullyAssociativeOp op [] newOps s = None"
| "lowerFullyAssociativeOp op [a] newOps s = Some (a, newOps, snd (saveTopLevelName op s))"
| "lowerFullyAssociativeOp op [a, b] newOps s =
     (let (name, s0) = saveTopLevelName op s in createBinaryNode op name a b newOps s0)"
| "lowerFullyAssociativeOp op (a # b # c # ds) newOps s =
     (let (name, s0) = saveTopLevelName op s;
          opnds = a # b # c # ds;
          firstHalf = length opnds div 2
      in case lowerFullyAssociativeOp op (take firstHalf opnds) newOps s0 of
           None \<Rightarrow> None
         | Some (lhs, newOps1, s1) \<Rightarrow>
            (case lowerFullyAssociativeOp op (drop firstHalf opnds) newOps1 s1 of
               None \<Rightarrow> None
             | Some (rhs, newOps2, s2) \<Rightarrow> createBinaryNode op name lhs rhs newOps2 s2))"
  by pat_completeness auto
termination
  by (relation "measure (\<lambda>(op, opnds, newOps, s). length opnds)") auto

text \<open>The new nodes of a balancing result that carry a given attribute.\<close>

definition newOpsCarrying :: "string \<Rightarrow> (val \<times> opid list \<times> ir) option \<Rightarrow> opid list" where
  "newOpsCarrying n res =
     (case res of
        None \<Rightarrow> []
      | Some (r, newOps, s') \<Rightarrow> filter (\<lambda>i. getAttr (opOf s' i) n \<noteq> None) newOps)"

subsection \<open>Value semantics of the variadic operators\<close>

text \<open>
  The operators of the comb dialect that carry the \<^verbatim>\<open>Commutative\<close> trait are the variadic
  add, mul, and, or and xor. The trait table and the operators' meaning are declared outside
  \<^verbatim>\<open>PrepareForEmission.cpp\<close>; they are written down here, over bit vectors of any width:
  a node's value is the operator folded over the values of its operands.
\<close>

definition isCommutative :: "opname \<Rightarrow> bool" where
  "isCommutative n = (n = AddOp \<or> n = MulOp \<or> n = AndOp \<or> n = OrOp \<or> n = XorOp)"

fun opSem :: "opname \<Rightarrow> 'a::len word list \<Rightarrow> 'a word option" where
  "opSem AddOp vs = Some (foldr (+) vs 0)"
| "opSem MulOp vs = Some (foldr (*) vs 1)"
| "opSem AndOp vs = Some (foldr (AND) vs (- 1))"
| "opSem OrOp vs = Some (foldr (OR) vs 0)"
| "opSem XorOp vs = Some (foldr (XOR) vs 0)"
| "opSem _ vs = None"

text \<open>Evaluating a sequence of single-result nodes in order, under an assignment of
  values to the graph's values; each node's result is bound as it is computed.\<close>

fun evalOps :: "ir \<Rightarrow> opid list \<Rightarrow> (val \<Rightarrow> 'a::len word) \<Rightarrow> (val \<Rightarrow> 'a word) option" where
  "evalOps s [] env = Some env"
| "evalOps s (i # is) env =
     (case opSem (opName (opOf s i)) (map env (operands (opOf s i))) of
        None \<Rightarrow> None
      | Some w \<Rightarrow> evalOps s is (env(OpResult i 0 := w)))"

text \<open>A value that exists in the store: a block argument, or a result of an operation whose
  index has been handed out.\<close>

definition valExists :: "ir \<Rightarrow> val \<Rightarrow> bool" where
  "valExists s v = (case v of BlockArgument b k \<Rightarrow> True | OpResult i k \<Rightarrow> i < nextOp s)"

subsection \<open>The balancing step of the driver\<close>

text \<open>\<^verbatim>\<open>NamedAttribute::getNameDialect\<close>: an attribute name of the form
  \<^verbatim>\<open>dialect.name\<close> (split at the first dot, both parts non-empty) refers to that dialect
  when the dialect is loaded.\<close>

definition getNameDialect :: "ir \<Rightarrow> string \<Rightarrow> string option" where
  "getNameDialect s n =
     (let pre = takeWhile (\<lambda>c. c \<noteq> CHR ''.'') n;
          suf = drop (Suc (length pre)) n
      in if pre \<noteq> [] \<and> suf \<noteq> [] \<and> pre \<in> set (loadedDialects s) then Some pre else None)"

text \<open>The guard of lines 839-846. \<^verbatim>\<open>mlir::isMemoryEffectFree\<close> is an interface query of the
  host library; it is a parameter here.\<close>

definition shouldBalance :: "(ir \<Rightarrow> opid \<Rightarrow> bool) \<Rightarrow> ir \<Rightarrow> opid \<Rightarrow> bool" where
  "shouldBalance isMemoryEffectFree s op =
     (2 < length (operands (opOf s op)) \<and> length (resultTypes (opOf s op)) = 1 \<and>
      isCommutative (opName (opOf s op)) \<and>
      isMemoryEffectFree s op \<and> length (regions (opOf s op)) = 0 \<and>
      length (successors (opOf s op)) = 0 \<and>
      list_all (\<lambda>a. getNameDialect s (fst a) \<noteq> None \<or> fst a = ''twoState'') (attrs (opOf s op)))"

text \<open>What one rewrite of the driver's scan does with the node under the iterator: it does
  not apply and the scan falls through to the next rewrite, or the source aborts, or the
  graph is rewritten and the scan continues at the given operation.\<close>

datatype stepResult = FallThrough | Aborted | Continue opid ir

text \<open>Lines 839-856: under the guard the node is lowered to a tree, every use of its result
  is redirected to the tree's result, the node is erased, and the scan resumes at the first
  new node.\<close>

definition balanceStep :: "(ir \<Rightarrow> opid \<Rightarrow> bool) \<Rightarrow> opid \<Rightarrow> ir \<Rightarrow> stepResult" where
  "balanceStep isMemoryEffectFree op s =
     (if shouldBalance isMemoryEffectFree s op
      then (case lowerFullyAssociativeOp op (operands (opOf s op)) [] s of
              None \<Rightarrow> Aborted
            | Some (result, newOps, s1) \<Rightarrow>
               (case newOps of
                  [] \<Rightarrow> Aborted
                | front # rest \<Rightarrow>
                   Continue front (eraseOp op (replaceAllUsesWith (OpResult op 0) result s1))))
      else FallThrough)"

subsection \<open>Well-formed stores\<close>


text \<open>Two operation records that differ at most in their operands.\<close>

definition sameButOperands :: "operation \<Rightarrow> operation \<Rightarrow> bool" where
  "sameButOperands p q =
     (opName p = opName q \<and> resultTypes p = resultTypes q \<and> attrs p = attrs q \<and>
      regions p = regions q \<and> opBlock p = opBlock q)"


section \<open>Algebraic normalization: \<open>a + -cst\<close> becomes \<open>a - cst\<close>\<close>

fun apWidth :: "apint \<Rightarrow> nat" where
  "apWidth (APInt w v) = w"

fun apValue :: "apint \<Rightarrow> nat" where
  "apValue (APInt w v) = v mod 2 ^ w"

text \<open>\<^verbatim>\<open>APInt::operator-\<close>: two's-complement negation at the value's own width.\<close>

fun apNeg :: "apint \<Rightarrow> apint" where
  "apNeg (APInt w v) = APInt w ((2 ^ w - v mod 2 ^ w) mod 2 ^ w)"

text \<open>\<^verbatim>\<open>APInt::isNegative\<close>: the top bit is set.\<close>

fun isNegative :: "apint \<Rightarrow> bool" where
  "isNegative (APInt w v) = (0 < w \<and> 2 ^ (w - 1) \<le> v mod 2 ^ w)"

text \<open>The signed reading of the bits.\<close>

definition apSigned :: "apint \<Rightarrow> int" where
  "apSigned a = (if isNegative a then int (apValue a) - 2 ^ apWidth a else int (apValue a))"

text \<open>The meaning of the two-operand \<^verbatim>\<open>comb.add\<close> and \<^verbatim>\<open>comb.sub\<close> on bit vectors of
  width \<open>w\<close>, read unsigned.\<close>

definition combAdd :: "nat \<Rightarrow> nat \<Rightarrow> nat \<Rightarrow> nat" where
  "combAdd w x y = (x + y) mod 2 ^ w"

definition combSub :: "nat \<Rightarrow> nat \<Rightarrow> nat \<Rightarrow> nat" where
  "combSub w x y = (x mod 2 ^ w + (2 ^ w - y mod 2 ^ w)) mod 2 ^ w"

text \<open>\<^verbatim>\<open>ConstantOp::getValue\<close>.\<close>

definition getValue :: "ir \<Rightarrow> opid \<Rightarrow> apint" where
  "getValue s i =
     (case getAttr (opOf s i) ''value'' of Some (IntegerAttr a) \<Rightarrow> a | _ \<Rightarrow> APInt 0 0)"

definition getTwoState :: "ir \<Rightarrow> opid \<Rightarrow> bool" where
  "getTwoState s i = (getAttr (opOf s i) ''twoState'' \<noteq> None)"

text \<open>\<^verbatim>\<open>rewriteAddWithNegativeConstant\<close> (lines 295-308). The builder inserts before the
  add; the result is the first operation created.\<close>

definition rewriteAddWithNegativeConstant :: "opid \<Rightarrow> opid \<Rightarrow> ir \<Rightarrow> (opid \<times> ir) option" where
  "rewriteAddWithNegativeConstant add rhsCst s =
     (case opBlock (opOf s add) of
        None \<Rightarrow> None
      | Some b \<Rightarrow>
         (let c = apNeg (getValue s rhsCst);
              (negCst, s1) = builderCreate (b, Some add) ConstantOp []
                               [IntegerType (apWidth c)] [(''value'', IntegerAttr c)] s;
              lhs = operands (opOf s1 add) ! 0
          in case getType s1 lhs of
               None \<Rightarrow> None
             | Some t \<Rightarrow>
                (let (sub, s2) = builderCreate (b, Some add) SubOp [lhs, OpResult negCst 0] [t]
                                   (if getTwoState s1 add then [(''twoState'', UnitAttr)] else [])
                                   s1;
                     s3 = replaceAllUsesWith (OpResult add 0) (OpResult sub 0) s2;
                     s4 = eraseOp add s3;
                     s5 = (if use_empty s4 rhsCst then eraseOp rhsCst s4 else s4)
                 in Some (negCst, s5))))"

text \<open>Lines 859-868 of the driver. The node is an add whose second operand is defined by a
  constant; the source asserts that the add has two operands; when the constant's value is
  negative the add is rewritten and the scan resumes at the first operation created.\<close>

definition addNegStep :: "opid \<Rightarrow> ir \<Rightarrow> stepResult" where
  "addNegStep op s =
     (if opName (opOf s op) = AddOp
      then (if length (operands (opOf s op)) < 2 then Aborted
            else (case getDefiningOp (operands (opOf s op) ! 1) of
                    None \<Rightarrow> FallThrough
                  | Some cst \<Rightarrow>
                     (if opName (opOf s cst) = ConstantOp
                      then (if length (operands (opOf s op)) \<noteq> 2 then Aborted
                            else if isNegative (getValue s cst)
                            then (case rewriteAddWithNegativeConstant op cst s of
                                    None \<Rightarrow> Aborted
                                  | Some (firstOp, s') \<Rightarrow> Continue firstOp s')
                            else FallThrough)
                      else FallThrough)))
      else FallThrough)"

section \<open>Options and external classifiers\<close>

text \<open>The lowering options the pass reads.\<close>

record options =
  disallowLocalVariables :: bool
  disallowExpressionInliningInPorts :: bool
  allowExprInEventControl :: bool
  maximumNumberOfTermsPerExpression :: nat
  spillLargeTermsWithNamehints :: bool
  wireSpillingNamehintTermLimit :: nat

text \<open>
  What the pass consumes from outside \<^verbatim>\<open>PrepareForEmission.cpp\<close>: the classification of
  operations as Verilog expressions, the \<^verbatim>\<open>ProceduralRegion\<close> trait, the memory-effect
  query, the name inferred for a temporary, the port names and instance name of an instance,
  and the set of operations the three expression visitors dispatch on. They are parameters
  of the model.
\<close>

record classifier =
  isVerilogExpression :: "ir \<Rightarrow> opid \<Rightarrow> bool"
  isExpressionAlwaysInline :: "ir \<Rightarrow> opid \<Rightarrow> bool"
  isExpressionEmittedInline :: "ir \<Rightarrow> opid \<Rightarrow> options \<Rightarrow> bool"
  isConstantExpression :: "ir \<Rightarrow> opid \<Rightarrow> bool"
  isMemoryEffectFree :: "ir \<Rightarrow> opid \<Rightarrow> bool"
  hasProceduralRegion :: "opname \<Rightarrow> bool"
  inferStructuralNameForTemporary :: "ir \<Rightarrow> val \<Rightarrow> string option"
  instanceName :: "ir \<Rightarrow> opid \<Rightarrow> string"
  inputPortNames :: "ir \<Rightarrow> opid \<Rightarrow> string option list"
  outputPortNames :: "ir \<Rightarrow> opid \<Rightarrow> string option list"
  visitorHandles :: "opname \<Rightarrow> bool"

section \<open>Helpers of the pass\<close>

text \<open>\<^verbatim>\<open>op->getParentOp()->hasTrait<ProceduralRegion>()\<close>; an operation without a parent is
  the source's null dereference.\<close>

definition parentIsProcedural :: "classifier \<Rightarrow> ir \<Rightarrow> opid \<Rightarrow> bool option" where
  "parentIsProcedural orc s i =
     (case getParentOp s i of
        None \<Rightarrow> None
      | Some p \<Rightarrow> Some (hasProceduralRegion orc (opName (opOf s p))))"

text \<open>\<^verbatim>\<open>op->getParentOfType<T>()\<close>: the nearest enclosing operation of the given kind. The
  walk is bounded by the number of operations of the store.\<close>

fun parentOfType :: "nat \<Rightarrow> ir \<Rightarrow> opname \<Rightarrow> opid \<Rightarrow> opid option" where
  "parentOfType 0 s n i = None"
| "parentOfType (Suc fuel) s n i =
     (case getParentOp s i of
        None \<Rightarrow> None
      | Some p \<Rightarrow> (if opName (opOf s p) = n then Some p else parentOfType fuel s n p))"

definition getParentOfType :: "ir \<Rightarrow> opname \<Rightarrow> opid \<Rightarrow> opid option" where
  "getParentOfType s n i = parentOfType (nextOp s) s n i"

text \<open>The body block of a module: the block of its first region.\<close>

definition getBodyBlock :: "ir \<Rightarrow> opid \<Rightarrow> blockid option" where
  "getBodyBlock s m = (case regions (opOf s m) of Some b # rest \<Rightarrow> Some b | _ \<Rightarrow> None)"

text \<open>\<^verbatim>\<open>ImplicitLocOpBuilder::atBlockBegin\<close>: the insertion point is the operation that is
  first in the block now.\<close>

definition atBlockBegin :: "ir \<Rightarrow> blockid \<Rightarrow> inspt" where
  "atBlockBegin s b = (b, case blockOps (blockOf s b) of [] \<Rightarrow> None | x # xs \<Rightarrow> Some x)"

text \<open>The type held by a storage value (\<^verbatim>\<open>inout<T>\<close>).\<close>

definition getElementType :: "ir \<Rightarrow> val \<Rightarrow> ty option" where
  "getElementType s v = (case getType s v of Some (InOutType t) \<Rightarrow> Some t | _ \<Rightarrow> None)"

text \<open>\<^verbatim>\<open>builder.create<ReadInOutOp>(v)\<close>: the result has the element type of \<open>v\<close>.\<close>

definition createRead :: "inspt \<Rightarrow> val \<Rightarrow> ir \<Rightarrow> (opid \<times> ir) option" where
  "createRead ip v s =
     (case getElementType s v of
        None \<Rightarrow> None
      | Some t \<Rightarrow> Some (builderCreate ip ReadInOutOp [v] [t] [] s))"

text \<open>Lines 40-53.\<close>

definition isSimpleReadOrPort :: "ir \<Rightarrow> val \<Rightarrow> bool" where
  "isSimpleReadOrPort s v =
     (case v of
        BlockArgument b k \<Rightarrow> True
      | OpResult vOp k \<Rightarrow>
         (if opName (opOf s vOp) \<noteq> ReadInOutOp then False
          else (case operands (opOf s vOp) of
                  [] \<Rightarrow> False
                | input # rest \<Rightarrow>
                   (case getDefiningOp input of
                      None \<Rightarrow> False
                    | Some readSrc \<Rightarrow>
                       opName (opOf s readSrc) \<in> {WireOp, RegOp, LogicOp, XMROp, XMRRefOp}))))"

text \<open>Lines 56-62.\<close>

definition shouldSpillWire :: "classifier \<Rightarrow> options \<Rightarrow> ir \<Rightarrow> opid \<Rightarrow> bool" where
  "shouldSpillWire orc opts s op =
     (if \<not> isVerilogExpression orc s op then False
      else \<not> isExpressionEmittedInline orc s op opts)"

text \<open>\<^verbatim>\<open>std::to_string\<close> of an index.\<close>

fun to_string :: "nat \<Rightarrow> string" where
  "to_string n =
     (if n < 10 then [''0123456789'' ! n]
      else to_string (n div 10) @ [''0123456789'' ! (n mod 10)])"

declare to_string.simps [simp del]

text \<open>The head of the use list of a value is redirected to a fresh read of \<open>newWire\<close>, placed
  before the user, until no use is left (lines 126-131 and 214-219). The count bounds the
  iterations by the length of the use list at the start.\<close>

fun redirectUsesToReads :: "nat \<Rightarrow> inspt \<Rightarrow> val \<Rightarrow> val \<Rightarrow> ir \<Rightarrow> ir option" where
  "redirectUsesToReads n ip newWire result s =
     (case useList s result of
        [] \<Rightarrow> Some s
      | use # rest \<Rightarrow>
         (case n of
            0 \<Rightarrow> None
          | Suc m \<Rightarrow>
             (case createRead ip newWire s of
                None \<Rightarrow> None
              | Some (newWireRead, s1) \<Rightarrow>
                 redirectUsesToReads m ip newWire result
                   (moveBefore newWireRead (fst use)
                      (setUse use (OpResult newWireRead 0) s1)))))"

subsection \<open>Instances\<close>

text \<open>\<^verbatim>\<open>spillWiresForInstanceInputs\<close> (lines 65-93), port by port.\<close>

fun spillInputs ::
  "opid \<Rightarrow> inspt \<Rightarrow> string \<Rightarrow> string option list \<Rightarrow> nat \<Rightarrow> ir \<Rightarrow> ir option" where
  "spillInputs op ip prefix [] nextOpNo s = Some s"
| "spillInputs op ip prefix (port # ports) nextOpNo s =
     (if length (operands (opOf s op)) \<le> nextOpNo then None
      else
        (let src = operands (opOf s op) ! nextOpNo
         in if isSimpleReadOrPort s src then spillInputs op ip prefix ports (Suc nextOpNo) s
            else
              (case getType s src of
                 None \<Rightarrow> None
               | Some t \<Rightarrow>
                  (let nameTmp = prefix @ (case port of Some n \<Rightarrow> n | None \<Rightarrow> to_string nextOpNo);
                       (newWire, s1) = builderCreate ip WireOp [] [InOutType t]
                                         [(''name'', StringAttr nameTmp)] s;
                       (newWireRead, s2) = builderCreate ip ReadInOutOp [OpResult newWire 0] [t] [] s1;
                       (connect, s3) = builderCreate ip AssignOp [OpResult newWire 0, src] [] [] s2;
                       s4 = moveBefore newWireRead op s3;
                       s5 = moveBefore connect op s4;
                       s6 = setOperand op nextOpNo (OpResult newWireRead 0) s5
                   in spillInputs op ip prefix ports (Suc nextOpNo) s6))))"

definition spillWiresForInstanceInputs :: "classifier \<Rightarrow> opid \<Rightarrow> ir \<Rightarrow> ir option" where
  "spillWiresForInstanceInputs orc op s =
     (case getParentOfType s HWModuleOp op of
        None \<Rightarrow> None
      | Some m \<Rightarrow>
         (case getBodyBlock s m of
            None \<Rightarrow> None
          | Some block \<Rightarrow>
             spillInputs op (atBlockBegin s block) (''_'' @ instanceName orc s op @ ''_'')
               (inputPortNames orc s op) 0 s))"

text \<open>\<^verbatim>\<open>lowerInstanceResults\<close> (lines 96-136), port by port.\<close>

fun lowerResults ::
  "opid \<Rightarrow> inspt \<Rightarrow> string \<Rightarrow> string option list \<Rightarrow> nat \<Rightarrow> ir \<Rightarrow> ir option" where
  "lowerResults op ip prefix [] nextResultNo s = Some s"
| "lowerResults op ip prefix (port # ports) nextResultNo s =
     (if length (resultTypes (opOf s op)) \<le> nextResultNo then None
      else
        (let result = OpResult op nextResultNo;
             spill =
               (let nameTmp = prefix @ (case port of Some n \<Rightarrow> n | None \<Rightarrow> to_string nextResultNo);
                    (newWire, s1) = builderCreate ip WireOp []
                                      [InOutType (resultTypes (opOf s op) ! nextResultNo)]
                                      [(''name'', StringAttr nameTmp)] s
                in case redirectUsesToReads (length (useList s1 result)) ip (OpResult newWire 0)
                          result s1 of
                     None \<Rightarrow> None
                   | Some s2 \<Rightarrow>
                      (let (connect, s3) = builderCreate ip AssignOp [OpResult newWire 0, result]
                                             [] [] s2
                       in lowerResults op ip prefix ports (Suc nextResultNo)
                            (moveAfter connect op s3)))
         in case useList s result of
              [use] \<Rightarrow>
                (if opName (opOf s (fst use)) = OutputOp
                 then lowerResults op ip prefix ports (Suc nextResultNo) s
                 else if opName (opOf s (fst use)) = AssignOp
                 then lowerResults op ip prefix ports (Suc nextResultNo) (moveAfter (fst use) op s)
                 else spill)
            | _ \<Rightarrow> spill))"

definition lowerInstanceResults :: "classifier \<Rightarrow> opid \<Rightarrow> ir \<Rightarrow> ir option" where
  "lowerInstanceResults orc op s =
     (case getParentOfType s HWModuleOp op of
        None \<Rightarrow> None
      | Some m \<Rightarrow>
         (case getBodyBlock s m of
            None \<Rightarrow> None
          | Some block \<Rightarrow>
             lowerResults op (atBlockBegin s block) (''_'' @ instanceName orc s op @ ''_'')
               (outputPortNames orc s op) 0 s))"

subsection \<open>Always-inline operations\<close>

text \<open>\<^verbatim>\<open>op->clone()\<close> of an operation without regions and successors (an expression): a
  detached copy with the same name, operands, result types and attributes.\<close>

definition cloneOp :: "opid \<Rightarrow> ir \<Rightarrow> (opid \<times> ir) option" where
  "cloneOp op s =
     (if regions (opOf s op) = [] \<and> successors (opOf s op) = []
      then Some (createOp (opName (opOf s op)) (operands (opOf s op)) (resultTypes (opOf s op))
                   (attrs (opOf s op)) s)
      else None)"

text \<open>
  \<^verbatim>\<open>lowerAlwaysInlineOperation\<close> (lines 140-181). The function calls itself through the
  operands of the operations it moves and clones; nothing in the source bounds the depth, so
  the model carries fuel, which every call and every loop iteration consumes, and \<open>None\<close> is
  "did not return" (out of fuel, a failed assertion, or the dereference of an empty use
  list at line 158 or 174).
\<close>

fun lowerAlwaysInlineOperation :: "nat \<Rightarrow> classifier \<Rightarrow> opid \<Rightarrow> ir \<Rightarrow> ir option"
  and duplicateForUses :: "nat \<Rightarrow> classifier \<Rightarrow> opid \<Rightarrow> ir \<Rightarrow> ir option"
  and recursivelyHandleOperands :: "nat \<Rightarrow> classifier \<Rightarrow> opid \<Rightarrow> nat \<Rightarrow> nat \<Rightarrow> ir \<Rightarrow> ir option"
where
  "lowerAlwaysInlineOperation 0 orc op s = None"
| "lowerAlwaysInlineOperation (Suc fuel) orc op s =
     (if length (resultTypes (opOf s op)) \<noteq> 1 then None
      else
        (case duplicateForUses fuel orc op s of
           None \<Rightarrow> None
         | Some s1 \<Rightarrow>
            (case getUsers s1 op of
               [] \<Rightarrow> None
             | user # rest \<Rightarrow>
                recursivelyHandleOperands fuel orc op 0 (length (operands (opOf s1 op)))
                  (moveBefore op user s1))))"
| "duplicateForUses 0 orc op s = None"
| "duplicateForUses (Suc fuel) orc op s =
     (if hasOneUse s op then Some s
      else
        (case opUses s op of
           [] \<Rightarrow> None
         | use # rest \<Rightarrow>
            (case (cloneOp op s, opBlock (opOf s (fst use))) of
               (Some (newOp, s1), Some b) \<Rightarrow>
                 (let s2 = insertOp (b, Some (fst use)) newOp s1;
                      s3 = setUse use (OpResult newOp 0) s2
                  in case recursivelyHandleOperands fuel orc newOp 0
                            (length (operands (opOf s3 newOp))) s3 of
                       None \<Rightarrow> None
                     | Some s4 \<Rightarrow> duplicateForUses fuel orc op s4)
             | _ \<Rightarrow> None)))"
| "recursivelyHandleOperands 0 orc op k n s = None"
| "recursivelyHandleOperands (Suc fuel) orc op k n s =
     (if n \<le> k then Some s
      else
        (case getDefiningOp (operands (opOf s op) ! k) of
           None \<Rightarrow> recursivelyHandleOperands fuel orc op (Suc k) n s
         | Some operandOp \<Rightarrow>
            (if isExpressionAlwaysInline orc s operandOp
             then (case lowerAlwaysInlineOperation fuel orc operandOp s of
                     None \<Rightarrow> None
                   | Some s1 \<Rightarrow> recursivelyHandleOperands fuel orc op (Suc k) n s1)
             else recursivelyHandleOperands fuel orc op (Suc k) n s)))"

subsection \<open>Temporaries\<close>

text \<open>\<^verbatim>\<open>findLogicOpInsertionPoint\<close> (lines 186-192): the beginning of the block, seen through
  enclosing \<^verbatim>\<open>ifdef.procedural\<close> wrappers.\<close>

fun findLogicOpInsertionPoint :: "nat \<Rightarrow> ir \<Rightarrow> opid \<Rightarrow> inspt option" where
  "findLogicOpInsertionPoint 0 s op = None"
| "findLogicOpInsertionPoint (Suc fuel) s op =
     (case getParentOp s op of
        None \<Rightarrow> None
      | Some p \<Rightarrow>
         (if opName (opOf s p) = IfDefProceduralOp then findLogicOpInsertionPoint fuel s p
          else (case opBlock (opOf s op) of
                  None \<Rightarrow> None
                | Some b \<Rightarrow> Some (atBlockBegin s b))))"

text \<open>The lambda \<^verbatim>\<open>createWireForResult\<close> of \<^verbatim>\<open>lowerUsersToTemporaryWire\<close>
  (lines 206-237).\<close>

definition createWireForResult ::
  "opid \<Rightarrow> bool \<Rightarrow> bool \<Rightarrow> inspt \<Rightarrow> val \<Rightarrow> string option \<Rightarrow> ir \<Rightarrow> ir option" where
  "createWireForResult op emitWireAtBlockBegin isProceduralRegion ip result name s =
     (case getType s result of
        None \<Rightarrow> None
      | Some t \<Rightarrow>
         (let nm = (case name of Some n \<Rightarrow> n | None \<Rightarrow> []);
              (newWire, s1) = builderCreate ip (if isProceduralRegion then LogicOp else WireOp) []
                                [InOutType t] [(''name'', StringAttr nm)] s
          in case redirectUsesToReads (length (useList s1 result)) ip (OpResult newWire 0)
                    result s1 of
               None \<Rightarrow> None
             | Some s2 \<Rightarrow>
                (let (connect, s3) = builderCreate ip
                                       (if isProceduralRegion then BPAssignOp else AssignOp)
                                       [OpResult newWire 0, result] [] [] s2;
                     s4 = moveAfter connect op s3
                 in Some (if \<not> emitWireAtBlockBegin then moveAfter newWire op s4 else s4))))"

fun createWiresForResults ::
  "opid \<Rightarrow> bool \<Rightarrow> bool \<Rightarrow> inspt \<Rightarrow> val list \<Rightarrow> ir \<Rightarrow> ir option" where
  "createWiresForResults op e p ip [] s = Some s"
| "createWiresForResults op e p ip (result # results) s =
     (case createWireForResult op e p ip result None s of
        None \<Rightarrow> None
      | Some s1 \<Rightarrow> createWiresForResults op e p ip results s1)"

text \<open>\<^verbatim>\<open>lowerUsersToTemporaryWire\<close> (lines 200-251).\<close>

definition lowerUsersToTemporaryWire :: "classifier \<Rightarrow> opid \<Rightarrow> bool \<Rightarrow> ir \<Rightarrow> ir option" where
  "lowerUsersToTemporaryWire orc op emitWireAtBlockBegin s =
     (case (opBlock (opOf s op), parentIsProcedural orc s op) of
        (Some block, Some isProceduralRegion) \<Rightarrow>
          (let ip = atBlockBegin s block
           in if length (resultTypes (opOf s op)) = 1
              then (let namehint = inferStructuralNameForTemporary orc s (OpResult op 0)
                    in createWireForResult op emitWireAtBlockBegin isProceduralRegion ip
                         (OpResult op 0) namehint (removeAttr op ''sv.namehint'' s))
              else createWiresForResults op emitWireAtBlockBegin isProceduralRegion ip
                     (opResults s op) s)
      | _ \<Rightarrow> None)"

subsection \<open>Struct explode\<close>

text \<open>\<^verbatim>\<open>lowerStructExplodeOp\<close> (lines 312-326): one extract per field, zipped with the
  results; the result is the first extract, which does not exist for an empty struct.\<close>

fun explodeFields ::
  "inspt \<Rightarrow> val \<Rightarrow> val list \<Rightarrow> (string \<times> ty) list \<Rightarrow> opid option \<Rightarrow> ir \<Rightarrow> opid option \<times> ir" where
  "explodeFields ip input (res # ress) (field # flds) firstOp s =
     (let (extract, s1) = builderCreate ip StructExtractOp [input] [snd field]
                            [(''field'', StringAttr (fst field))] s;
          firstOp' = (case firstOp of None \<Rightarrow> Some extract | Some f \<Rightarrow> Some f)
      in explodeFields ip input ress flds firstOp'
           (replaceAllUsesWith res (OpResult extract 0) s1))"
| "explodeFields ip input ress flds firstOp s = (firstOp, s)"

definition lowerStructExplodeOp :: "opid \<Rightarrow> ir \<Rightarrow> (opid \<times> ir) option" where
  "lowerStructExplodeOp op s =
     (case (opBlock (opOf s op), operands (opOf s op)) of
        (Some b, input # rest) \<Rightarrow>
          (case getType s input of
             Some (StructType elements) \<Rightarrow>
               (case explodeFields (b, Some op) input (opResults s op) elements None s of
                  (Some firstOp, s1) \<Rightarrow> Some (firstOp, eraseOp op s1)
                | (None, s1) \<Rightarrow> None)
           | _ \<Rightarrow> None)
      | _ \<Rightarrow> None)"

subsection \<open>Leaving procedural regions\<close>

text \<open>\<^verbatim>\<open>findParentInNonProceduralRegion\<close> (lines 333-340): the assertion on the parent, then
  the walk up while the grandparent is procedural.\<close>

fun walkToNonProcedural :: "nat \<Rightarrow> classifier \<Rightarrow> ir \<Rightarrow> opid \<Rightarrow> opid option" where
  "walkToNonProcedural 0 orc s parentOp = None"
| "walkToNonProcedural (Suc fuel) orc s parentOp =
     (case parentIsProcedural orc s parentOp of
        None \<Rightarrow> None
      | Some True \<Rightarrow> (case getParentOp s parentOp of
                       None \<Rightarrow> None
                     | Some p \<Rightarrow> walkToNonProcedural fuel orc s p)
      | Some False \<Rightarrow> Some parentOp)"

definition findParentInNonProceduralRegion :: "classifier \<Rightarrow> ir \<Rightarrow> opid \<Rightarrow> opid option" where
  "findParentInNonProceduralRegion orc s op =
     (case getParentOp s op of
        None \<Rightarrow> None
      | Some parentOp \<Rightarrow>
         (if hasProceduralRegion orc (opName (opOf s parentOp))
          then walkToNonProcedural (nextOp s) orc s parentOp
          else None))"

text \<open>\<^verbatim>\<open>rewriteSideEffectingExpr\<close> (lines 349-378).\<close>

definition alreadyRewritten :: "ir \<Rightarrow> opid \<Rightarrow> bool" where
  "alreadyRewritten s op =
     (case opUses s op of
        [use] \<Rightarrow>
          (opName (opOf s (fst use)) = BPAssignOp \<and>
           (case operands (opOf s (fst use)) of
              dest # rest \<Rightarrow>
                (case getDefiningOp dest of
                   None \<Rightarrow> False
                 | Some d \<Rightarrow> opName (opOf s d) = RegOp \<or> opName (opOf s d) = LogicOp)
            | [] \<Rightarrow> False))
      | _ \<Rightarrow> False)"

definition rewriteSideEffectingExpr :: "classifier \<Rightarrow> opid \<Rightarrow> ir \<Rightarrow> (bool \<times> ir) option" where
  "rewriteSideEffectingExpr orc op s =
     (if length (resultTypes (opOf s op)) \<noteq> 1 then None
      else if alreadyRewritten s op then Some (False, s)
      else
        (let opValue = OpResult op 0
         in case (findParentInNonProceduralRegion orc s op, getType s opValue) of
              (Some parentOp, Some t) \<Rightarrow>
                (case opBlock (opOf s parentOp) of
                   None \<Rightarrow> None
                 | Some pb \<Rightarrow>
                    (let (reg, s1) = builderCreate (pb, Some parentOp) RegOp [] [InOutType t]
                                       [(''name'', StringAttr [])] s;
                         (value, s2) = builderCreate (pb, Some parentOp) ReadInOutOp
                                         [OpResult reg 0] [t] [] s1;
                         s3 = replaceAllUsesWith opValue (OpResult value 0) s2
                     in case opBlock (opOf s3 op) of
                          None \<Rightarrow> None
                        | Some b \<Rightarrow>
                           (let (assign, s4) = builderCreate (b, nextNode s3 op) BPAssignOp
                                                 [OpResult reg 0, opValue] [] [] s3
                            in Some (True, s4))))
            | _ \<Rightarrow> None))"

text \<open>\<^verbatim>\<open>hoistNonSideEffectExpr\<close> (lines 384-428). \<^verbatim>\<open>llvm::any_of\<close> stops at the first operand
  for which the predicate holds; \<open>cantHoist\<close> is updated by the operands examined up to
  there.\<close>

fun anyOperandInProcedural ::
  "classifier \<Rightarrow> ir \<Rightarrow> opid \<Rightarrow> val list \<Rightarrow> bool \<Rightarrow> (bool \<times> bool) option" where
  "anyOperandInProcedural orc s op [] cantHoist = Some (False, cantHoist)"
| "anyOperandInProcedural orc s op (operand # rest) cantHoist =
     (case getDefiningOp operand of
        None \<Rightarrow> anyOperandInProcedural orc s op rest cantHoist
      | Some operandOp \<Rightarrow>
         (case parentIsProcedural orc s operandOp of
            None \<Rightarrow> None
          | Some True \<Rightarrow>
              Some (True, cantHoist \<or> opBlock (opOf s operandOp) = opBlock (opOf s op))
          | Some False \<Rightarrow> anyOperandInProcedural orc s op rest cantHoist))"

definition neverHoisted :: "classifier \<Rightarrow> ir \<Rightarrow> opid \<Rightarrow> bool option" where
  "neverHoisted orc s op =
     (if isExpressionAlwaysInline orc s op
      then (if opName (opOf s op) = ReadInOutOp then Some False
            else (case getType s (OpResult op 0) of
                    None \<Rightarrow> None
                  | Some (InOutType t) \<Rightarrow> Some False
                  | Some t \<Rightarrow> Some True))
      else Some False)"

definition hoistNonSideEffectExpr :: "classifier \<Rightarrow> opid \<Rightarrow> ir \<Rightarrow> (bool \<times> ir) option" where
  "hoistNonSideEffectExpr orc op s =
     (case neverHoisted orc s op of
        None \<Rightarrow> None
      | Some True \<Rightarrow> Some (False, s)
      | Some False \<Rightarrow>
         (case findParentInNonProceduralRegion orc s op of
            None \<Rightarrow> None
          | Some parentOp \<Rightarrow>
             (case anyOperandInProcedural orc s op (operands (opOf s op)) False of
                None \<Rightarrow> None
              | Some (True, cantHoist) \<Rightarrow>
                 (if cantHoist then Some (False, s)
                  else (case getParentOp s op of
                          None \<Rightarrow> None
                        | Some p \<Rightarrow> Some (True, moveBefore op p s)))
              | Some (False, cantHoist) \<Rightarrow> Some (True, moveBefore op parentOp s))))"

text \<open>\<^verbatim>\<open>isMovableDeclaration\<close> (lines 431-435).\<close>

definition isMovableDeclaration :: "ir \<Rightarrow> opid \<Rightarrow> bool" where
  "isMovableDeclaration s op =
     (length (resultTypes (opOf s op)) = 1 \<and>
      (case resultTypes (opOf s op) of
         InOutType t # rest \<Rightarrow> True
       | InterfaceType # rest \<Rightarrow> True
       | _ \<Rightarrow> False) \<and>
      length (operands (opOf s op)) = 0)"

section \<open>Expression sizes\<close>

text \<open>
  \<^verbatim>\<open>EmittedExpressionStateManager\<close> (lines 441-533). The state of an expression is its size;
  the cache \<^verbatim>\<open>expressionStates\<close> is threaded through. The three visitors are not overridden
  for any operation, so every operation they dispatch on reaches \<^verbatim>\<open>visitUnhandledExpr\<close>; an
  operation none of them knows ends in the visitors' abort. The recursion follows the
  operands, which can form a cycle in a graph region: the model carries fuel.
\<close>

type_synonym expressionStates = "val \<Rightarrow> nat option"

fun getExpressionState ::
      "nat \<Rightarrow> classifier \<Rightarrow> ir \<Rightarrow> expressionStates \<Rightarrow> val \<Rightarrow> (nat \<times> expressionStates) option"
  and mergeOperandsStates ::
      "nat \<Rightarrow> classifier \<Rightarrow> ir \<Rightarrow> expressionStates \<Rightarrow> val list \<Rightarrow> nat \<Rightarrow>
       (nat \<times> expressionStates) option"
where
  "getExpressionState 0 orc s cache v = None"
| "getExpressionState (Suc fuel) orc s cache v =
     (case cache v of
        Some st \<Rightarrow> Some (st, cache)
      | None \<Rightarrow>
         (case v of
            BlockArgument b k \<Rightarrow> Some (1, cache)
          | OpResult op k \<Rightarrow>
             (if \<not> visitorHandles orc (opName (opOf s op)) then None
              else
                (case (if length (operands (opOf s op)) = 0 then Some (1, cache)
                       else mergeOperandsStates fuel orc s cache (operands (opOf s op)) 0) of
                   None \<Rightarrow> None
                 | Some (st, cache1) \<Rightarrow>
                    Some (st, if cache1 v = None then cache1(v \<mapsto> st) else cache1)))))"
| "mergeOperandsStates 0 orc s cache vs acc = None"
| "mergeOperandsStates (Suc fuel) orc s cache [] acc = Some (acc, cache)"
| "mergeOperandsStates (Suc fuel) orc s cache (operand # rest) acc =
     (case getExpressionState fuel orc s cache operand of
        None \<Rightarrow> None
      | Some (st, cache1) \<Rightarrow> mergeOperandsStates fuel orc s cache1 rest (acc + st))"

section \<open>Reusing an existing declaration\<close>

text \<open>The loop of lines 544-563 over the uses of the operation: \<open>None\<close> is the source's
  abort, \<open>Some None\<close> is \<^verbatim>\<open>return false\<close>, and otherwise the loop ends with the assign it
  saved, if any, and the other uses in order.\<close>

fun scanUses ::
  "ir \<Rightarrow> opoperand list \<Rightarrow> opid option \<Rightarrow> opoperand list \<Rightarrow>
   (opid option \<times> opoperand list) option option" where
  "scanUses s [] assign uses = Some (Some (assign, uses))"
| "scanUses s (use # rest) assign uses =
     (if opName (opOf s (fst use)) = AssignOp
      then (if assign \<noteq> None then Some None
            else (case getParentOp s (fst use) of
                    None \<Rightarrow> None
                  | Some p \<Rightarrow>
                     (if opName (opOf s p) \<noteq> HWModuleOp then Some None
                      else scanUses s rest (Some (fst use)) uses)))
      else scanUses s rest assign (uses @ [use]))"

text \<open>Lines 575-579: each saved use is set to a fresh read of the destination, created
  before the use's owner.\<close>

fun readForUses :: "val \<Rightarrow> opoperand list \<Rightarrow> ir \<Rightarrow> ir option" where
  "readForUses dest [] s = Some s"
| "readForUses dest (use # uses) s =
     (case opBlock (opOf s (fst use)) of
        None \<Rightarrow> None
      | Some b \<Rightarrow>
         (case createRead (b, Some (fst use)) dest s of
            None \<Rightarrow> None
          | Some (read, s1) \<Rightarrow> readForUses dest uses (setUse use (OpResult read 0) s1)))"

text \<open>\<^verbatim>\<open>reuseExistingInOut\<close> (lines 538-584).\<close>

definition reuseExistingInOut :: "nat \<Rightarrow> classifier \<Rightarrow> opid \<Rightarrow> ir \<Rightarrow> (bool \<times> ir) option" where
  "reuseExistingInOut fuel orc op s =
     (case scanUses s (opUses s op) None [] of
        None \<Rightarrow> None
      | Some None \<Rightarrow> Some (False, s)
      | Some (Some (None, uses)) \<Rightarrow> Some (False, s)
      | Some (Some (Some assign, uses)) \<Rightarrow>
         (if uses = [] then Some (False, s)
          else
            (case operands (opOf s assign) of
               dest # src # rest \<Rightarrow>
                 (if (case getDefiningOp src of
                        None \<Rightarrow> False
                      | Some cop \<Rightarrow> opName (opOf s cop) = ConstantOp)
                  then Some (False, s)
                  else
                    (case readForUses dest uses s of
                       None \<Rightarrow> None
                     | Some s1 \<Rightarrow>
                        (case getDefiningOp dest of
                           None \<Rightarrow> Some (True, s1)
                         | Some destOp \<Rightarrow>
                            (if isExpressionAlwaysInline orc s1 destOp
                             then (case lowerAlwaysInlineOperation fuel orc destOp s1 of
                                     None \<Rightarrow> None
                                   | Some s2 \<Rightarrow> Some (True, s2))
                             else Some (True, s1)))))
             | _ \<Rightarrow> None)))"

section \<open>Prettification\<close>

text \<open>\<^verbatim>\<open>dispatchHeuristic\<close> (lines 586-602).\<close>

definition dispatchHeuristic ::
  "nat \<Rightarrow> classifier \<Rightarrow> options \<Rightarrow> ir \<Rightarrow> expressionStates \<Rightarrow> opid \<Rightarrow>
   (bool \<times> expressionStates) option" where
  "dispatchHeuristic fuel orc opts s cache op =
     (if spillLargeTermsWithNamehints opts
      then (case getAttr (opOf s op) ''sv.namehint'' of
              Some (StringAttr hint) \<Rightarrow>
                (if \<not> (case hint of c # cs \<Rightarrow> c = CHR ''_'' | [] \<Rightarrow> False) then Some (True, cache)
                 else (case getExpressionState fuel orc s cache (OpResult op 0) of
                         None \<Rightarrow> None
                       | Some (sz, cache1) \<Rightarrow>
                          (if wireSpillingNamehintTermLimit opts \<le> sz then Some (True, cache1)
                           else Some (False, cache1))))
            | _ \<Rightarrow> Some (False, cache))
      else Some (False, cache))"

text \<open>The test of lines 616-628: the only user is an output, an assign or an instance, or a
  bitcast whose only user is an output or an assign.\<close>

definition onlyUsedByAssignment :: "ir \<Rightarrow> opid \<Rightarrow> bool" where
  "onlyUsedByAssignment s op =
     (case opUses s op of
        [use] \<Rightarrow>
          (let singleUser = fst use
           in opName (opOf s singleUser) \<in> {OutputOp, AssignOp, BPAssignOp, InstanceOp} \<or>
              (hasOneUse s singleUser \<and> opName (opOf s singleUser) = BitcastOp \<and>
               (case getUsers s singleUser of
                  u # us \<Rightarrow> opName (opOf s u) \<in> {OutputOp, AssignOp, BPAssignOp}
                | [] \<Rightarrow> False)))
      | _ \<Rightarrow> False)"

text \<open>\<^verbatim>\<open>shouldSpillWireBasedOnState\<close> (lines 606-636).\<close>

definition shouldSpillWireBasedOnState ::
  "nat \<Rightarrow> classifier \<Rightarrow> options \<Rightarrow> ir \<Rightarrow> expressionStates \<Rightarrow> opid \<Rightarrow>
   (bool \<times> expressionStates) option" where
  "shouldSpillWireBasedOnState fuel orc opts s cache op =
     (if length (resultTypes (opOf s op)) = 0 \<or>
         (case getType s (OpResult op 0) of Some (InOutType t) \<Rightarrow> True | _ \<Rightarrow> False) \<or>
         opName (opOf s op) = ReadInOutOp \<or> opName (opOf s op) = ConstantOp
      then Some (False, cache)
      else if onlyUsedByAssignment s op then Some (False, cache)
      else (case getExpressionState fuel orc s cache (OpResult op 0) of
              None \<Rightarrow> None
            | Some (sz, cache1) \<Rightarrow>
               (if maximumNumberOfTermsPerExpression opts < sz then Some (True, cache1)
                else dispatchHeuristic fuel orc opts s cache1 op)))"

section \<open>The legalization driver\<close>

text \<open>
  \<^verbatim>\<open>legalizeHWModule\<close> (lines 667-971). The body of the forward scan is a chain of rewrites
  of the operation under the iterator. Each rewrite ends in one of: the scan proceeds to
  the next rewrite of the chain, \<^verbatim>\<open>continue\<close>, \<^verbatim>\<open>continue\<close> with the iterator set to an
  operation, \<^verbatim>\<open>return failure()\<close>, or the source does not return (a failed assertion, a
  null dereference, or fuel exhausted in a helper).
\<close>

datatype flow = Proceed ir | ContinueLoop ir | ContinueAt opid ir | ReturnFailure | Crash

definition ofStep :: "ir \<Rightarrow> stepResult \<Rightarrow> flow" where
  "ofStep s r = (case r of FallThrough \<Rightarrow> Proceed s | Aborted \<Rightarrow> Crash
                 | Continue front s' \<Rightarrow> ContinueAt front s')"

text \<open>Lines 694-699.\<close>

definition knownDialect :: "ir \<Rightarrow> opid \<Rightarrow> bool" where
  "knownDialect s op = (getDialect (opName (opOf s op)) \<in> {CombDialect, SVDialect, HWDialect})"

text \<open>Lines 706-713.\<close>

definition instanceStep :: "classifier \<Rightarrow> options \<Rightarrow> opid \<Rightarrow> ir \<Rightarrow> flow" where
  "instanceStep orc opts op s =
     (if opName (opOf s op) = InstanceOp
      then (case lowerInstanceResults orc op s of
              None \<Rightarrow> Crash
            | Some s1 \<Rightarrow>
               (if disallowExpressionInliningInPorts opts
                then (case spillWiresForInstanceInputs orc op s1 of
                        None \<Rightarrow> Crash
                      | Some s2 \<Rightarrow> Proceed s2)
                else Proceed s1))
      else Proceed s)"

text \<open>Lines 717-724.\<close>

definition logicStep :: "classifier \<Rightarrow> options \<Rightarrow> bool \<Rightarrow> opid \<Rightarrow> ir \<Rightarrow> flow" where
  "logicStep orc opts isProceduralRegion op s =
     (if isProceduralRegion \<and> opName (opOf s op) = LogicOp \<and> disallowLocalVariables opts
      then (case findParentInNonProceduralRegion orc s op of
              None \<Rightarrow> Crash
            | Some parentOp \<Rightarrow> Proceed (moveBefore op parentOp s))
      else Proceed s)"

text \<open>The lambda \<^verbatim>\<open>enforceWire\<close> (lines 729-748).\<close>

definition enforceWire :: "nat \<Rightarrow> classifier \<Rightarrow> opid \<Rightarrow> val \<Rightarrow> ir \<Rightarrow> ir option" where
  "enforceWire fuel orc op expr s =
     (if isSimpleReadOrPort s expr then Some s
      else if (case getDefiningOp expr of
                 None \<Rightarrow> False
               | Some d \<Rightarrow> opName (opOf s d) = InstanceOp) then Some s
      else
        (case (getParentOfType s HWModuleOp op, getType s expr, opBlock (opOf s op)) of
           (Some m, Some t, Some b) \<Rightarrow>
             (case getBodyBlock s m of
                None \<Rightarrow> None
              | Some body \<Rightarrow>
                 (let (newWire, s1) = builderCreate (atBlockBegin s body) WireOp [] [InOutType t]
                                        [(''name'', StringAttr [])] s;
                      (newWireRead, s2) = builderCreate (b, Some op) ReadInOutOp
                                            [OpResult newWire 0] [t] [] s1;
                      s3 = replaceAllUsesWith expr (OpResult newWireRead 0) s2;
                      (assign, s4) = builderCreate (b, Some op) AssignOp
                                       [OpResult newWire 0, expr] [] [] s3
                  in lowerAlwaysInlineOperation fuel orc newWireRead s4))
         | _ \<Rightarrow> None))"

fun enforceWires :: "nat \<Rightarrow> classifier \<Rightarrow> opid \<Rightarrow> nat \<Rightarrow> nat \<Rightarrow> ir \<Rightarrow> ir option" where
  "enforceWires fuel orc op k 0 s = Some s"
| "enforceWires fuel orc op k (Suc n) s =
     (case enforceWire fuel orc op (operands (opOf s op) ! k) s of
        None \<Rightarrow> None
      | Some s1 \<Rightarrow> enforceWires fuel orc op (Suc k) n s1)"

text \<open>Lines 728-760. The clocks of an \<^verbatim>\<open>sv.always\<close> are all its operands; an
  \<^verbatim>\<open>sv.alwaysff\<close> has its clock first and, when present, its reset second.\<close>

definition eventControlStep :: "nat \<Rightarrow> classifier \<Rightarrow> options \<Rightarrow> opid \<Rightarrow> ir \<Rightarrow> flow" where
  "eventControlStep fuel orc opts op s =
     (if \<not> allowExprInEventControl opts \<and>
         (opName (opOf s op) = AlwaysOp \<or> opName (opOf s op) = AlwaysFFOp)
      then (if opName (opOf s op) = AlwaysFFOp \<and> operands (opOf s op) = [] then Crash
            else (case enforceWires fuel orc op 0
                         (if opName (opOf s op) = AlwaysFFOp
                          then min 2 (length (operands (opOf s op)))
                          else length (operands (opOf s op))) s of
                    None \<Rightarrow> Crash
                  | Some s1 \<Rightarrow> ContinueLoop s1))
      else Proceed s)"

text \<open>Lines 764-785.\<close>

definition hoistStep :: "classifier \<Rightarrow> options \<Rightarrow> bool \<Rightarrow> opid \<Rightarrow> ir \<Rightarrow> flow" where
  "hoistStep orc opts isProceduralRegion op s =
     (if disallowLocalVariables opts \<and> isVerilogExpression orc s op \<and> isProceduralRegion
      then
        (let hoist = (\<lambda>s0. case hoistNonSideEffectExpr orc op s0 of
                             None \<Rightarrow> Crash
                           | Some (True, s1) \<Rightarrow> ContinueLoop s1
                           | Some (False, s1) \<Rightarrow> Proceed s1)
         in if \<not> isMemoryEffectFree orc s op
            then (case rewriteSideEffectingExpr orc op s of
                    None \<Rightarrow> Crash
                  | Some (True, s1) \<Rightarrow> ContinueLoop s1
                  | Some (False, s1) \<Rightarrow> hoist s1)
            else hoist s)
      else Proceed s)"

text \<open>Lines 789-801. The set of always-inline operations already visited is threaded
  through the scan.\<close>

definition alwaysInlineStep ::
  "nat \<Rightarrow> classifier \<Rightarrow> opid list \<Rightarrow> opid \<Rightarrow> ir \<Rightarrow> flow \<times> opid list" where
  "alwaysInlineStep fuel orc visited op s =
     (if isExpressionAlwaysInline orc s op
      then (if use_empty s op then (ContinueLoop (eraseOp op s), visited)
            else if op \<notin> set visited
            then (case lowerAlwaysInlineOperation fuel orc op s of
                    None \<Rightarrow> (Crash, op # visited)
                  | Some s1 \<Rightarrow> (ContinueLoop s1, op # visited))
            else (ContinueLoop s, visited))
      else (Proceed s, visited))"

text \<open>Lines 804-832.\<close>

definition spillStep :: "nat \<Rightarrow> classifier \<Rightarrow> options \<Rightarrow> bool \<Rightarrow> opid \<Rightarrow> ir \<Rightarrow> flow" where
  "spillStep fuel orc opts isProceduralRegion op s =
     (if shouldSpillWire orc opts s op
      then
        (case (if isProceduralRegion then Some (False, s) else reuseExistingInOut fuel orc op s) of
           None \<Rightarrow> Crash
         | Some (True, s1) \<Rightarrow> Proceed s1
         | Some (False, s1) \<Rightarrow>
            (if disallowLocalVariables opts
             then
               (case (if isProceduralRegion then hoistNonSideEffectExpr orc op s1
                      else Some (True, s1)) of
                  None \<Rightarrow> Crash
                | Some (False, s2) \<Rightarrow> Proceed s2
                | Some (True, s2) \<Rightarrow>
                   (case parentIsProcedural orc s2 op of
                      None \<Rightarrow> Crash
                    | Some inProcedural \<Rightarrow>
                       (case (if \<not> inProcedural then lowerUsersToTemporaryWire orc op False s2
                              else Some s2) of
                          None \<Rightarrow> Crash
                        | Some s3 \<Rightarrow>
                           (if isProceduralRegion then ContinueLoop s3 else Proceed s3))))
             else (case lowerUsersToTemporaryWire orc op False s1 of
                     None \<Rightarrow> Crash
                   | Some s2 \<Rightarrow> Proceed s2)))
      else Proceed s)"

text \<open>Lines 872-876.\<close>

definition structExplodeStep :: "opid \<Rightarrow> ir \<Rightarrow> flow" where
  "structExplodeStep op s =
     (if opName (opOf s op) = StructExplodeOp
      then (case lowerStructExplodeOp op s of
              None \<Rightarrow> Crash
            | Some (firstOp, s1) \<Rightarrow> ContinueAt firstOp s1)
      else Proceed s)"

text \<open>Lines 881-882; the result of the call is discarded.\<close>

definition speculativeReuseStep ::
  "nat \<Rightarrow> classifier \<Rightarrow> bool \<Rightarrow> opid \<Rightarrow> ir \<Rightarrow> flow" where
  "speculativeReuseStep fuel orc isProceduralRegion op s =
     (if \<not> isProceduralRegion \<and> isVerilogExpression orc s op
      then (case reuseExistingInOut fuel orc op s of
              None \<Rightarrow> Crash
            | Some (fired, s1) \<Rightarrow> ContinueLoop s1)
      else ContinueLoop s)"

text \<open>Sequencing: the next rewrite runs when the one before proceeds.\<close>

definition andThen :: "flow \<Rightarrow> (ir \<Rightarrow> flow) \<Rightarrow> flow" where
  "andThen f g = (case f of Proceed s \<Rightarrow> g s | other \<Rightarrow> other)"

text \<open>The body of the scan, lines 692-883, for the operation \<open>op\<close>.\<close>

definition legalizeOp ::
  "nat \<Rightarrow> classifier \<Rightarrow> options \<Rightarrow> bool \<Rightarrow> opid list \<Rightarrow> opid \<Rightarrow> ir \<Rightarrow> flow \<times> opid list" where
  "legalizeOp fuel orc opts isProceduralRegion visited op s =
     (if \<not> knownDialect s op then (ReturnFailure, visited)
      else
        (case andThen (andThen (andThen (instanceStep orc opts op s)
                                  (logicStep orc opts isProceduralRegion op))
                         (eventControlStep fuel orc opts op))
                (hoistStep orc opts isProceduralRegion op) of
           Proceed s1 \<Rightarrow>
             (case alwaysInlineStep fuel orc visited op s1 of
                (Proceed s2, visited') \<Rightarrow>
                  (andThen (andThen (andThen (andThen
                     (spillStep fuel orc opts isProceduralRegion op s2)
                     (\<lambda>s3. ofStep s3 (balanceStep (isMemoryEffectFree orc) op s3)))
                     (\<lambda>s3. ofStep s3 (addNegStep op s3)))
                     (structExplodeStep op))
                     (speculativeReuseStep fuel orc isProceduralRegion op),
                   visited')
              | other \<Rightarrow> other)
         | other \<Rightarrow> (other, visited)))"

text \<open>What a run of the pass on a block comes to.\<close>

datatype outcome = Success ir | Failure | NoReturn

text \<open>The forward scan, lines 690-883. The iterator is the operation it points at, or
  \<open>None\<close> at the end of the block; it is advanced before the body runs. An iterator whose
  operation a rewrite has moved to another block never meets the end of this block; the
  source then runs off the other block's end, and the model does not return.\<close>

fun scanBlock ::
  "nat \<Rightarrow> classifier \<Rightarrow> options \<Rightarrow> blockid \<Rightarrow> bool \<Rightarrow> opid list \<Rightarrow> opid option \<Rightarrow> ir \<Rightarrow> outcome"
where
  "scanBlock 0 orc opts block isProc visited opIterator s = NoReturn"
| "scanBlock (Suc fuel) orc opts block isProc visited None s = Success s"
| "scanBlock (Suc fuel) orc opts block isProc visited (Some op) s =
     (if opBlock (opOf s op) \<noteq> Some block then NoReturn
      else
        (let next = nextNode s op
         in case legalizeOp fuel orc opts isProc visited op s of
              (Proceed s1, visited') \<Rightarrow> scanBlock fuel orc opts block isProc visited' next s1
            | (ContinueLoop s1, visited') \<Rightarrow> scanBlock fuel orc opts block isProc visited' next s1
            | (ContinueAt front s1, visited') \<Rightarrow>
                scanBlock fuel orc opts block isProc visited' (Some front) s1
            | (ReturnFailure, visited') \<Rightarrow> Failure
            | (Crash, visited') \<Rightarrow> NoReturn))"

text \<open>Lines 885-910: in a procedural block the \<^verbatim>\<open>sv.logic\<close> declarations move to the
  insertion point, in their order.\<close>

fun moveLogicOps :: "nat \<Rightarrow> blockid \<Rightarrow> opid option \<Rightarrow> opid option \<Rightarrow> ir \<Rightarrow> ir option" where
  "moveLogicOps 0 ipBlock ipIterator opIterator s = None"
| "moveLogicOps (Suc fuel) ipBlock ipIterator None s = Some s"
| "moveLogicOps (Suc fuel) ipBlock ipIterator (Some op) s =
     (let next = nextNode s op
      in if opName (opOf s op) = LogicOp
         then (if ipIterator = Some op then moveLogicOps fuel ipBlock (nextNode s op) next s
               else moveLogicOps fuel ipBlock ipIterator next
                      (moveBeforeIt op (ipBlock, ipIterator) s))
         else moveLogicOps fuel ipBlock ipIterator next s)"

definition blockBegin :: "ir \<Rightarrow> blockid \<Rightarrow> opid option" where
  "blockBegin s block = (case blockOps (blockOf s block) of [] \<Rightarrow> None | x # xs \<Rightarrow> Some x)"

definition hoistLogicOps :: "nat \<Rightarrow> blockid \<Rightarrow> ir \<Rightarrow> outcome" where
  "hoistLogicOps fuel block s =
     (case blockBegin s block of
        None \<Rightarrow> Success s
      | Some front \<Rightarrow>
         (case findLogicOpInsertionPoint fuel s front of
            None \<Rightarrow> NoReturn
          | Some ip \<Rightarrow>
             (case moveLogicOps fuel (fst ip) (snd ip) (Some front) s of
                None \<Rightarrow> NoReturn
              | Some s1 \<Rightarrow> Success s1)))"

text \<open>Lines 923-933: a user is zipped up to the operation of this block that holds it;
  the uses are out of order when such an operation has been seen already.\<close>

fun zipUp :: "nat \<Rightarrow> ir \<Rightarrow> blockid \<Rightarrow> opid \<Rightarrow> opid option" where
  "zipUp 0 s block userOp = None"
| "zipUp (Suc fuel) s block userOp =
     (case opBlock (opOf s userOp) of
        None \<Rightarrow> None
      | Some b \<Rightarrow>
         (if b = block then Some userOp
          else (case blockParentOp (blockOf s b) of
                  None \<Rightarrow> None
                | Some p \<Rightarrow> zipUp fuel s block p)))"

fun haveAnyOutOfOrderUses :: "nat \<Rightarrow> ir \<Rightarrow> blockid \<Rightarrow> opid list \<Rightarrow> opid list \<Rightarrow> bool option" where
  "haveAnyOutOfOrderUses fuel s block seen [] = Some False"
| "haveAnyOutOfOrderUses fuel s block seen (userOp # users) =
     (case zipUp fuel s block userOp of
        None \<Rightarrow> None
      | Some u \<Rightarrow> (if u \<in> set seen then Some True
                   else haveAnyOutOfOrderUses fuel s block seen users))"

text \<open>Lines 944-968: what is done with an operation that is used before it is defined.\<close>

definition resolveUseBeforeDef :: "classifier \<Rightarrow> blockid \<Rightarrow> opid \<Rightarrow> ir \<Rightarrow> ir option" where
  "resolveUseBeforeDef orc block op s =
     (case blockBegin s block of
        None \<Rightarrow> None
      | Some front \<Rightarrow>
         (if isMovableDeclaration s op then Some (moveBefore op front s)
          else if isConstantExpression orc s op then Some (moveBefore op front s)
          else
            (let lower = lowerUsersToTemporaryWire orc op True s
             in if opName (opOf s op) = ReadInOutOp
                then (case operands (opOf s op) of
                        [] \<Rightarrow> None
                      | input # rest \<Rightarrow>
                         (case getDefiningOp input of
                            None \<Rightarrow> None
                          | Some def \<Rightarrow>
                             (if isMovableDeclaration s def
                              then (let s1 = moveBefore op front s
                                    in case blockBegin s1 block of
                                         None \<Rightarrow> None
                                       | Some front1 \<Rightarrow> Some (moveBefore def front1 s1))
                              else lower)))
                else lower)))"

fun useBeforeDefScan ::
  "nat \<Rightarrow> classifier \<Rightarrow> blockid \<Rightarrow> opid list \<Rightarrow> opid option \<Rightarrow> ir \<Rightarrow> outcome" where
  "useBeforeDefScan 0 orc block seen opIterator s = NoReturn"
| "useBeforeDefScan (Suc fuel) orc block seen None s = Success s"
| "useBeforeDefScan (Suc fuel) orc block seen (Some op) s =
     (let next = nextNode s op
      in case haveAnyOutOfOrderUses fuel s block seen (getUsers s op) of
           None \<Rightarrow> NoReturn
         | Some False \<Rightarrow> useBeforeDefScan fuel orc block (op # seen) next s
         | Some True \<Rightarrow>
            (case resolveUseBeforeDef orc block op s of
               None \<Rightarrow> NoReturn
             | Some s1 \<Rightarrow> useBeforeDefScan fuel orc block (op # seen) next s1))"

text \<open>Lines 681-971: the part of \<^verbatim>\<open>legalizeHWModule\<close> after the nested blocks.\<close>

definition legalizeBlock :: "nat \<Rightarrow> classifier \<Rightarrow> options \<Rightarrow> blockid \<Rightarrow> ir \<Rightarrow> outcome" where
  "legalizeBlock fuel orc opts block s =
     (case blockParentOp (blockOf s block) of
        None \<Rightarrow> NoReturn
      | Some parent \<Rightarrow>
         (let isProceduralRegion = hasProceduralRegion orc (opName (opOf s parent))
          in case scanBlock fuel orc opts block isProceduralRegion [] (blockBegin s block) s of
               Success s1 \<Rightarrow>
                 (if isProceduralRegion then hoistLogicOps fuel block s1
                  else useBeforeDefScan fuel orc block [] (blockBegin s1 block) s1)
             | other \<Rightarrow> other))"

text \<open>Lines 672-679 and the whole function: the nested blocks first, operation by
  operation and region by region, then the block itself.\<close>

fun legalizeHWModule :: "nat \<Rightarrow> classifier \<Rightarrow> options \<Rightarrow> blockid \<Rightarrow> ir \<Rightarrow> outcome"
  and legalizeNested :: "nat \<Rightarrow> classifier \<Rightarrow> options \<Rightarrow> opid option \<Rightarrow> ir \<Rightarrow> outcome"
  and legalizeRegions ::
        "nat \<Rightarrow> classifier \<Rightarrow> options \<Rightarrow> opid \<Rightarrow> nat \<Rightarrow> ir \<Rightarrow> outcome"
where
  "legalizeHWModule 0 orc opts block s = NoReturn"
| "legalizeHWModule (Suc fuel) orc opts block s =
     (case legalizeNested fuel orc opts (blockBegin s block) s of
        Success s1 \<Rightarrow> legalizeBlock fuel orc opts block s1
      | other \<Rightarrow> other)"
| "legalizeNested 0 orc opts opIterator s = NoReturn"
| "legalizeNested (Suc fuel) orc opts None s = Success s"
| "legalizeNested (Suc fuel) orc opts (Some op) s =
     (case legalizeRegions fuel orc opts op 0 s of
        Success s1 \<Rightarrow> legalizeNested fuel orc opts (nextNode s1 op) s1
      | other \<Rightarrow> other)"
| "legalizeRegions 0 orc opts op k s = NoReturn"
| "legalizeRegions (Suc fuel) orc opts op k s =
     (if length (regions (opOf s op)) \<le> k then Success s
      else (case regions (opOf s op) ! k of
              None \<Rightarrow> legalizeRegions fuel orc opts op (Suc k) s
            | Some b \<Rightarrow>
               (case legalizeHWModule fuel orc opts b s of
                  Success s1 \<Rightarrow> legalizeRegions fuel orc opts op (Suc k) s1
                | other \<Rightarrow> other)))"

section \<open>When the reuse of a declaration fires\<close>







section \<open>Example graphs\<close>

definition emptyIR :: ir where
  "emptyIR = \<lparr>ops = (\<lambda>_. None), blocks = (\<lambda>_. None), useList = (\<lambda>_. []), nextOp = 0,
                loadedDialects = [''builtin'', ''comb'', ''hw'', ''sv'']\<rparr>"

text \<open>Attach a fresh, empty block with the given argument types as a further region of an
  operation.\<close>

definition addRegionBlock :: "opid \<Rightarrow> blockid \<Rightarrow> ty list \<Rightarrow> ir \<Rightarrow> ir" where
  "addRegionBlock p b ts s =
     updOp p (\<lambda>q. q\<lparr>regions := regions q @ [Some b]\<rparr>)
       (s\<lparr>blocks := (blocks s)(b \<mapsto> \<lparr>blockArgTypes = ts, blockOps = [],
                                       blockParentOp = Some p\<rparr>)\<rparr>)"

text \<open>A module (operation 0, body block 0) holding a five-operand two-state add named
  \<open>sum\<close> over the module's ports (operation 1) and the output that uses it (operation 2).\<close>

definition exAdd5 :: ir where
  "exAdd5 =
     (let (m, s0) = createOp HWModuleOp [] [] [] emptyIR;
          s1 = addRegionBlock m 0 (replicate 5 (IntegerType 8)) s0;
          (a, s2) = builderCreate (0, None) AddOp
                      [BlockArgument 0 0, BlockArgument 0 1, BlockArgument 0 2,
                       BlockArgument 0 3, BlockArgument 0 4]
                      [IntegerType 8]
                      [(''sv.namehint'', StringAttr ''sum''), (''twoState'', UnitAttr)] s1;
          (out, s3) = builderCreate (0, None) OutputOp [OpResult a 0] [] [] s2
      in s3)"



text \<open>The operations of the comb dialect have no memory effects.\<close>

definition combMemoryEffectFree :: "ir \<Rightarrow> opid \<Rightarrow> bool" where
  "combMemoryEffectFree s i = (getDialect (opName (opOf s i)) = CombDialect)"


text \<open>A module with two 8-bit ports (operation 0, body block 0): a wire \<open>w\<close> (operation 1),
  the add of the ports (operation 2) and the continuous assignment of the add to the wire
  (operation 3).\<close>

definition exAssigned :: ir where
  "exAssigned =
     (let (m, s0) = createOp HWModuleOp [] [] [] emptyIR;
          s1 = addRegionBlock m 0 [IntegerType 8, IntegerType 8] s0;
          (w, s2) = builderCreate (0, None) WireOp [] [InOutType (IntegerType 8)]
                      [(''name'', StringAttr ''w'')] s1;
          (a, s3) = builderCreate (0, None) AddOp [BlockArgument 0 0, BlockArgument 0 1]
                      [IntegerType 8] [] s2;
          (c, s4) = builderCreate (0, None) AssignOp [OpResult w 0, OpResult a 0] [] [] s3
      in s4)"

text \<open>The same module with an output that uses the add as well (operation 4).\<close>

definition exReuse :: ir where
  "exReuse = snd (builderCreate (0, None) OutputOp [OpResult 2 0] [] [] exAssigned)"

section \<open>Verified properties\<close>

subsection \<open>Frame lemmas for the store primitives\<close>

lemma opOf_updOp: "opOf (updOp i f s) j = (if j = i \<and> ops s i \<noteq> None then f (opOf s i) else opOf s j)"
  by (auto simp: opOf_def updOp_def split: option.splits)

lemma opOf_updBlock: "opOf (updBlock b f s) j = opOf s j"
  by (simp add: opOf_def updBlock_def)

lemma ops_addOperandUses: "ops (addOperandUses i k vs s) = ops s"
  by (induction vs arbitrary: k s) (auto simp: addUse_def)
lemma nextOp_addOperandUses: "nextOp (addOperandUses i k vs s) = nextOp s"
  by (induction vs arbitrary: k s) (auto simp: addUse_def)

lemma opOf_addOperandUses: "opOf (addOperandUses i k vs s) j = opOf s j"
  by (simp add: opOf_def ops_addOperandUses)

lemma nextOp_updOp: "nextOp (updOp i f s) = nextOp s" by (simp add: updOp_def)
lemma nextOp_updBlock: "nextOp (updBlock i f s) = nextOp s" by (simp add: updBlock_def)
lemma ops_updOp_None: "(ops (updOp i f s) j = None) = (ops s j = None)" by (simp add: updOp_def)
lemma ops_updBlock: "ops (updBlock i f s) = ops s" by (simp add: updBlock_def)

lemma createOp_fst: "fst (createOp n vs ts as s) = nextOp s"
  by (simp add: createOp_def Let_def)
lemma createOp_nextOp: "nextOp (snd (createOp n vs ts as s)) = Suc (nextOp s)"
  by (simp add: createOp_def Let_def nextOp_addOperandUses)
lemma createOp_opOf: "opOf (snd (createOp n vs ts as s)) j =
  (if j = nextOp s then \<lparr>opName = n, operands = vs, resultTypes = ts, attrs = as, regions = [], successors = [], opBlock = None\<rparr> else opOf s j)"
  by (simp add: createOp_def Let_def opOf_addOperandUses) (simp add: opOf_def)
lemma createOp_ops_None: "ops (snd (createOp n vs ts as s)) j = None \<longleftrightarrow> j \<noteq> nextOp s \<and> ops s j = None"
  by (simp add: createOp_def Let_def ops_addOperandUses)

lemma saveTopLevelName_opOf:
  "opOf (snd (saveTopLevelName op s)) j = (if j = op \<and> ops s op \<noteq> None \<and> getAttr (opOf s op) ''sv.namehint'' \<noteq> None then (opOf s op)\<lparr>attrs := removeAttrL ''sv.namehint'' (attrs (opOf s op))\<rparr> else opOf s j)"
  by (auto simp: saveTopLevelName_def Let_def removeAttr_def opOf_updOp)

lemma saveTopLevelName_nextOp: "nextOp (snd (saveTopLevelName op s)) = nextOp s"
  by (simp add: saveTopLevelName_def Let_def removeAttr_def nextOp_updOp)

lemma createOp_props:
  assumes "createOp n vs ts as s = (i, s1)"
  shows "i = nextOp s" "nextOp s1 = Suc (nextOp s)"
    "opOf s1 j = (if j = nextOp s then \<lparr>opName = n, operands = vs, resultTypes = ts, attrs = as, regions = [], successors = [], opBlock = None\<rparr> else opOf s j)"
    "ops s1 (nextOp s) \<noteq> None"
  using createOp_fst[of n vs ts as s] createOp_nextOp[of n vs ts as s] createOp_opOf[of n vs ts as s j]
    createOp_ops_None[of n vs ts as s "nextOp s"] assms by auto

lemma createBinaryNode_Some:
  assumes "createBinaryNode op name lhs rhs newOps s = Some (r, newOps', s')" "op < nextOp s"
  shows "r = OpResult (nextOp s) 0 \<and> newOps' = newOps @ [nextOp s] \<and> nextOp s' = Suc (nextOp s)
     \<and> (\<forall>j. j \<noteq> nextOp s \<longrightarrow> opOf s' j = opOf s j)
     \<and> opName (opOf s' (nextOp s)) = opName (opOf s op) \<and> operands (opOf s' (nextOp s)) = [lhs, rhs]"
proof -
  obtain b ty where b: "opBlock (opOf s op) = Some b" and ty: "getType s (OpResult op 0) = Some ty"
    using assms(1) by (auto simp: createBinaryNode_def split: option.splits)
  obtain i s1 where c: "createOp (opName (opOf s op)) [lhs, rhs] [ty] [] s = (i, s1)"
    by (cases "createOp (opName (opOf s op)) [lhs, rhs] [ty] [] s") auto
  note cp = createOp_props[OF c]
  show ?thesis
    using assms b ty c cp(1,2,4)
    by (auto simp: createBinaryNode_def Let_def insertOp_def setAttr_def opOf_updOp opOf_updBlock cp(3) nextOp_updOp nextOp_updBlock ops_updBlock ops_updOp_None
      split: option.splits)
qed


lemma saveTopLevelName_props:
  assumes "saveTopLevelName op s = (name, s0)"
  shows "name = getAttr (opOf s op) ''sv.namehint''" "nextOp s0 = nextOp s"
    "j \<noteq> op \<Longrightarrow> opOf s0 j = opOf s j"
    "opOf s0 op = (opOf s op)\<lparr>attrs := removeAttrL ''sv.namehint'' (attrs (opOf s op))\<rparr>"
proof -
  have s0: "s0 = snd (saveTopLevelName op s)" using assms by simp
  show "name = getAttr (opOf s op) ''sv.namehint''" using assms by (simp add: saveTopLevelName_def Let_def)
  show "nextOp s0 = nextOp s" by (simp add: s0 saveTopLevelName_nextOp)
  show "j \<noteq> op \<Longrightarrow> opOf s0 j = opOf s j" by (simp add: s0 saveTopLevelName_opOf)
  have nohint: "map_of kvs n = None \<Longrightarrow> removeAttrL n kvs = kvs" for kvs :: "(string \<times> attr) list" and n
    by (induction kvs) (auto simp: removeAttrL_def split: if_splits)
  show "opOf s0 op = (opOf s op)\<lparr>attrs := removeAttrL ''sv.namehint'' (attrs (opOf s op))\<rparr>"
  proof (cases "ops s op")
    case None
    then show ?thesis by (simp add: s0 saveTopLevelName_opOf) (simp add: opOf_def nullOp_def removeAttrL_def)
  next
    case (Some p)
    then show ?thesis by (auto simp add: s0 saveTopLevelName_opOf getAttr_def nohint)
  qed
qed

lemma getType_result0:
  "resultTypes (opOf s op) \<noteq> [] \<Longrightarrow> getType s (OpResult op 0) = Some (hd (resultTypes (opOf s op)))"
  by (cases "resultTypes (opOf s op)") (simp_all add: getType_def)

lemma createBinaryNode_total:
  assumes "opBlock (opOf s op) = Some b" "resultTypes (opOf s op) \<noteq> []"
  shows "\<exists>r n' s'. createBinaryNode op name lhs rhs newOps s = Some (r, n', s')"
  using assms getType_result0[OF assms(2)]
  by (cases "createOp (opName (opOf s op)) [lhs, rhs] [hd (resultTypes (opOf s op))] [] s")
     (simp add: createBinaryNode_def Let_def)

lemma upt_split3: "a \<le> b \<Longrightarrow> b \<le> c \<Longrightarrow> [a..<Suc c] = [a..<b] @ [b..<c] @ [c]"
proof -
  assume ab: "a \<le> b" and bc: "b \<le> c"
  obtain k where k: "c = b + k" using bc le_Suc_ex by blast
  have "[a..<c] = [a..<b] @ [b..<c]" unfolding k using ab by (rule upt_add_eq_append)
  moreover have "[a..<Suc c] = [a..<c] @ [c]" using ab bc by simp
  ultimately show ?thesis by simp
qed

lemma removeAttrL_idem: "removeAttrL n (removeAttrL n kvs) = removeAttrL n kvs"
  by (simp add: removeAttrL_def)

lemma lfa_struct:
  "op < nextOp s \<Longrightarrow> opBlock (opOf s op) = Some b \<Longrightarrow> opnds \<noteq> [] \<Longrightarrow>
   resultTypes (opOf s op) \<noteq> [] \<Longrightarrow>
   \<exists>r s'. lowerFullyAssociativeOp op opnds newOps s =
              Some (r, newOps @ [nextOp s ..< nextOp s + (length opnds - 1)], s')
     \<and> nextOp s' = nextOp s + (length opnds - 1)
     \<and> (\<forall>j. j < nextOp s \<longrightarrow> j \<noteq> op \<longrightarrow> opOf s' j = opOf s j)
     \<and> opOf s' op = (opOf s op)\<lparr>attrs := removeAttrL ''sv.namehint'' (attrs (opOf s op))\<rparr>
     \<and> (\<forall>i. nextOp s \<le> i \<longrightarrow> i < nextOp s' \<longrightarrow>
            opName (opOf s' i) = opName (opOf s op) \<and> length (operands (opOf s' i)) = 2)
     \<and> (if length opnds = 1 then r = hd opnds else r = OpResult (nextOp s' - 1) 0)"
proof (induction op opnds newOps s rule: lowerFullyAssociativeOp.induct)
  case (1 op newOps s)
  then show ?case by simp
next
  case (2 op a newOps s)
  obtain name s0 where sv: "saveTopLevelName op s = (name, s0)" by (cases "saveTopLevelName op s")
  note sp = saveTopLevelName_props[OF sv]
  show ?case using sv sp by auto
next
  case (3 op a b' newOps s)
  obtain name s0 where sv: "saveTopLevelName op s = (name, s0)" by (cases "saveTopLevelName op s")
  note sp = saveTopLevelName_props[OF sv]
  have blk: "opBlock (opOf s0 op) = Some b" using sp(4) 3 by simp
  have rt: "resultTypes (opOf s0 op) \<noteq> []" using sp(4) "3.prems" by simp
  obtain r n' s' where cb: "createBinaryNode op name a b' newOps s0 = Some (r, n', s')"
    using createBinaryNode_total[OF blk rt] by blast
  have lt: "op < nextOp s0" using 3 sp by simp
  note cp = createBinaryNode_Some[OF cb lt]
  have one: "\<And>i. nextOp s \<le> i \<Longrightarrow> i < Suc (nextOp s) \<Longrightarrow> i = nextOp s" by arith
  show ?case using sv cb cp sp 3(1) by (auto dest: one)
next
  case (4 op a b' c ds newOps s)
  let ?opnds = "a # b' # c # ds"
  let ?h = "length ?opnds div 2"
  obtain name s0 where sv: "saveTopLevelName op s = (name, s0)" by (cases "saveTopLevelName op s")
  note sp = saveTopLevelName_props[OF sv]
  have blk0: "opBlock (opOf s0 op) = Some b" using sp(4) 4 by simp
  have rt0: "resultTypes (opOf s0 op) \<noteq> []" using sp(4) "4.prems" by simp
  have lt0: "op < nextOp s0" using 4 sp by simp
  have ne1: "take ?h ?opnds \<noteq> []" by simp
  have h_lt: "?h < length ?opnds" by simp
  have ne2: "drop ?h ?opnds \<noteq> []" using h_lt by (metis drop_eq_Nil not_le)
  from "4.IH"(1)[OF refl sv[symmetric] refl refl lt0 blk0 ne1 rt0]
  obtain r1 s1 where c1: "lowerFullyAssociativeOp op (take ?h ?opnds) newOps s0 =
              Some (r1, newOps @ [nextOp s0 ..< nextOp s0 + (length (take ?h ?opnds) - 1)], s1)"
     and n1: "nextOp s1 = nextOp s0 + (length (take ?h ?opnds) - 1)"
     and f1: "\<forall>j. j < nextOp s0 \<longrightarrow> j \<noteq> op \<longrightarrow> opOf s1 j = opOf s0 j"
     and o1: "opOf s1 op = (opOf s0 op)\<lparr>attrs := removeAttrL ''sv.namehint'' (attrs (opOf s0 op))\<rparr>"
     and k1: "\<forall>i. nextOp s0 \<le> i \<longrightarrow> i < nextOp s1 \<longrightarrow>
            opName (opOf s1 i) = opName (opOf s0 op) \<and> length (operands (opOf s1 i)) = 2"
     and r1: "(if length (take ?h ?opnds) = 1 then r1 = hd (take ?h ?opnds) else r1 = OpResult (nextOp s1 - 1) 0)"
    by blast
  have blk1: "opBlock (opOf s1 op) = Some b" using o1 blk0 by simp
  have rt1: "resultTypes (opOf s1 op) \<noteq> []" using o1 rt0 by simp
  have lt1: "op < nextOp s1" using lt0 n1 by simp
  from "4.IH"(2)[OF refl sv[symmetric] refl refl c1 refl refl lt1 blk1 ne2 rt1]
  obtain r2 s2 where c2: "lowerFullyAssociativeOp op (drop ?h ?opnds)
        (newOps @ [nextOp s0 ..< nextOp s0 + (length (take ?h ?opnds) - 1)]) s1 =
              Some (r2, (newOps @ [nextOp s0 ..< nextOp s0 + (length (take ?h ?opnds) - 1)]) @ [nextOp s1 ..< nextOp s1 + (length (drop ?h ?opnds) - 1)], s2)"
     and n2: "nextOp s2 = nextOp s1 + (length (drop ?h ?opnds) - 1)"
     and f2: "\<forall>j. j < nextOp s1 \<longrightarrow> j \<noteq> op \<longrightarrow> opOf s2 j = opOf s1 j"
     and o2: "opOf s2 op = (opOf s1 op)\<lparr>attrs := removeAttrL ''sv.namehint'' (attrs (opOf s1 op))\<rparr>"
     and k2: "\<forall>i. nextOp s1 \<le> i \<longrightarrow> i < nextOp s2 \<longrightarrow>
            opName (opOf s2 i) = opName (opOf s1 op) \<and> length (operands (opOf s2 i)) = 2"
    by blast
  have blk2: "opBlock (opOf s2 op) = Some b" using o2 blk1 by simp
  have rt2: "resultTypes (opOf s2 op) \<noteq> []" using o2 rt1 by simp
  have lt2: "op < nextOp s2" using lt1 n2 by simp
  let ?n2 = "(newOps @ [nextOp s0 ..< nextOp s0 + (length (take ?h ?opnds) - 1)]) @ [nextOp s1 ..< nextOp s1 + (length (drop ?h ?opnds) - 1)]"
  obtain r n' s' where cb: "createBinaryNode op name r1 r2 ?n2 s2 = Some (r, n', s')"
    using createBinaryNode_total[OF blk2 rt2] by blast
  note cp = createBinaryNode_Some[OF cb lt2]
  have lens: "nextOp s2 = nextOp s + (length ?opnds - 2)"
    using n1 n2 sp(2) by (simp add: min_def)
  have nl: "n' = newOps @ [nextOp s ..< nextOp s + (length ?opnds - 1)]"
  proof -
    have e: "nextOp s + (length ?opnds - 1) = Suc (nextOp s2)" using lens by simp
    have "[nextOp s ..< nextOp s + (length ?opnds - 1)] = [nextOp s ..< nextOp s1] @ [nextOp s1 ..< nextOp s2] @ [nextOp s2]"
      unfolding e using n1 n2 sp(2) by (intro upt_split3) simp_all
    then show ?thesis using cp n1 n2 sp(2) by simp
  qed
  have res: "lowerFullyAssociativeOp op ?opnds newOps s = Some (r, n', s')"
    using sv c1 c2 cb by (simp add: Let_def)
  have "opOf s' op = (opOf s op)\<lparr>attrs := removeAttrL ''sv.namehint'' (attrs (opOf s op))\<rparr>"
    using cp lt2 o2 o1 sp(4) by (simp add: removeAttrL_idem)
  moreover have "\<forall>j. j < nextOp s \<longrightarrow> j \<noteq> op \<longrightarrow> opOf s' j = opOf s j"
    using cp f2 f1 sp n1 n2 by auto
  moreover have "\<forall>i. nextOp s \<le> i \<longrightarrow> i < nextOp s' \<longrightarrow>
            opName (opOf s' i) = opName (opOf s op) \<and> length (operands (opOf s' i)) = 2"
  proof (intro allI impI)
    fix i assume i: "nextOp s \<le> i" "i < nextOp s'"
    have names: "opName (opOf s2 op) = opName (opOf s op)" "opName (opOf s1 op) = opName (opOf s op)"
       "opName (opOf s0 op) = opName (opOf s op)"
      using o2 o1 sp(4) by simp_all
    consider "i < nextOp s1" | "nextOp s1 \<le> i" "i < nextOp s2" | "i = nextOp s2"
      using i cp by force
    then show "opName (opOf s' i) = opName (opOf s op) \<and> length (operands (opOf s' i)) = 2"
    proof cases
      case 1
      then have "opOf s' i = opOf s1 i" using cp f2 lt1 n2 i sp(2) lt0 by auto
      then show ?thesis using k1 1 i sp(2) names by auto
    next
      case 2
      then have "opOf s' i = opOf s2 i" using cp by auto
      then show ?thesis using k2 2 names by auto
    next
      case 3
      then show ?thesis using cp names by auto
    qed
  qed
  ultimately show ?case using res nl cp lens by auto
qed








lemma evalOps_frame:
  "evalOps s xs env = Some env' \<Longrightarrow> (\<And>i k. v = OpResult i k \<Longrightarrow> i \<notin> set xs) \<Longrightarrow> env' v = env v"
proof (induction xs arbitrary: env)
  case Nil
  then show ?case by simp
next
  case (Cons i xs)
  then show ?case by (cases v) (auto split: option.splits)
qed


lemma evalOps_frame_exists:
  "evalOps t [nextOp s ..< m] env = Some env' \<Longrightarrow> valExists s v \<Longrightarrow> env' v = env v"
  by (erule evalOps_frame) (auto simp: valExists_def)


lemma map_of_removeAttrL: "map_of (removeAttrL n kvs) m = (if m = n then None else map_of kvs m)"
  by (induction kvs) (auto simp: removeAttrL_def)

lemma map_of_setAttrL: "map_of (setAttrL n a kvs) m = (if m = n then Some a else map_of kvs m)"
  by (auto simp: setAttrL_def map_add_def map_of_removeAttrL split: option.splits)

lemma getAttr_removed:
  "getAttr (p\<lparr>attrs := removeAttrL n (attrs p)\<rparr>) m = (if m = n then None else getAttr p m)"
  by (simp add: getAttr_def map_of_removeAttrL)

lemma createBinaryNode_attrs:
  assumes "createBinaryNode op name lhs rhs newOps s = Some (r, newOps', s')" "op < nextOp s"
  shows "getAttr (opOf s' (nextOp s)) ''twoState'' = getAttr (opOf s op) ''twoState''"
    "getAttr (opOf s' (nextOp s)) ''sv.namehint'' = name"
proof -
  obtain b ty where b: "opBlock (opOf s op) = Some b" and ty: "getType s (OpResult op 0) = Some ty"
    using assms(1) by (auto simp: createBinaryNode_def split: option.splits)
  obtain i s1 where c: "createOp (opName (opOf s op)) [lhs, rhs] [ty] [] s = (i, s1)"
    by (cases "createOp (opName (opOf s op)) [lhs, rhs] [ty] [] s") auto
  note cp = createOp_props[OF c]
  show "getAttr (opOf s' (nextOp s)) ''twoState'' = getAttr (opOf s op) ''twoState''"
    using assms b ty c cp(1,2,4)
    by (auto simp: createBinaryNode_def Let_def insertOp_def setAttr_def opOf_updOp opOf_updBlock cp(3)
        ops_updBlock ops_updOp_None getAttr_def map_of_setAttrL split: option.splits)
  show "getAttr (opOf s' (nextOp s)) ''sv.namehint'' = name"
    using assms b ty c cp(1,2,4)
    by (auto simp: createBinaryNode_def Let_def insertOp_def setAttr_def opOf_updOp opOf_updBlock cp(3)
        ops_updBlock ops_updOp_None getAttr_def map_of_setAttrL split: option.splits)
qed

lemma lfa_attrs:
  "op < nextOp s \<Longrightarrow> opBlock (opOf s op) = Some b \<Longrightarrow> opnds \<noteq> [] \<Longrightarrow>
   lowerFullyAssociativeOp op opnds newOps s = Some (r, n', s') \<Longrightarrow>
   resultTypes (opOf s op) \<noteq> [] \<Longrightarrow>
   \<forall>i. nextOp s \<le> i \<longrightarrow> i < nextOp s' \<longrightarrow>
      getAttr (opOf s' i) ''twoState'' = getAttr (opOf s op) ''twoState'' \<and>
      getAttr (opOf s' i) ''sv.namehint'' =
        (if i = nextOp s' - 1 then getAttr (opOf s op) ''sv.namehint'' else None)"
proof (induction op opnds newOps s arbitrary: r n' s' rule: lowerFullyAssociativeOp.induct)
  case (1 op newOps s)
  then show ?case by simp
next
  case (2 op a newOps s)
  obtain name s0 where sv: "saveTopLevelName op s = (name, s0)" by (cases "saveTopLevelName op s")
  note sp = saveTopLevelName_props[OF sv]
  show ?case using 2 sv sp by auto
next
  case (3 op a b' newOps s)
  obtain name s0 where sv: "saveTopLevelName op s = (name, s0)" by (cases "saveTopLevelName op s")
  note sp = saveTopLevelName_props[OF sv]
  have cb: "createBinaryNode op name a b' newOps s0 = Some (r, n', s')"
    using 3 sv by simp
  have lt: "op < nextOp s0" using 3 sp by simp
  note cp = createBinaryNode_Some[OF cb lt]
  note ca = createBinaryNode_attrs[OF cb lt]
  have one: "\<And>i. nextOp s \<le> i \<Longrightarrow> i < Suc (nextOp s) \<Longrightarrow> i = nextOp s" by arith
  show ?case using cp ca sp by (auto dest: one simp: getAttr_removed)
next
  case (4 op a b' c ds newOps s)
  let ?opnds = "a # b' # c # ds"
  let ?h = "length ?opnds div 2"
  obtain name s0 where sv: "saveTopLevelName op s = (name, s0)" by (cases "saveTopLevelName op s")
  note sp = saveTopLevelName_props[OF sv]
  have blk0: "opBlock (opOf s0 op) = Some b" using sp(4) 4 by simp
  have rt0: "resultTypes (opOf s0 op) \<noteq> []" using sp(4) "4.prems" by simp
  have lt0: "op < nextOp s0" using 4 sp by simp
  have ne1: "take ?h ?opnds \<noteq> []" by simp
  have h_lt: "?h < length ?opnds" by simp
  have ne2: "drop ?h ?opnds \<noteq> []" using h_lt by (metis drop_eq_Nil not_le)
  have hint0: "getAttr (opOf s0 op) ''sv.namehint'' = None" using sp(4) by (simp add: getAttr_removed)
  have two0: "getAttr (opOf s0 op) ''twoState'' = getAttr (opOf s op) ''twoState''"
    using sp(4) by (simp add: getAttr_removed)
  from lfa_struct[OF lt0 blk0 ne1 rt0, of newOps]
  obtain r1 s1 where c1: "lowerFullyAssociativeOp op (take ?h ?opnds) newOps s0 =
              Some (r1, newOps @ [nextOp s0 ..< nextOp s0 + (length (take ?h ?opnds) - 1)], s1)"
     and n1: "nextOp s1 = nextOp s0 + (length (take ?h ?opnds) - 1)"
     and o1: "opOf s1 op = (opOf s0 op)\<lparr>attrs := removeAttrL ''sv.namehint'' (attrs (opOf s0 op))\<rparr>"
    by blast
  have blk1: "opBlock (opOf s1 op) = Some b" using o1 blk0 by simp
  have rt1: "resultTypes (opOf s1 op) \<noteq> []" using o1 rt0 by simp
  have lt1: "op < nextOp s1" using lt0 n1 by simp
  have hint1: "getAttr (opOf s1 op) ''sv.namehint'' = None" using o1 by (simp add: getAttr_removed)
  have two1: "getAttr (opOf s1 op) ''twoState'' = getAttr (opOf s op) ''twoState''"
    using o1 two0 by (simp add: getAttr_removed)
  let ?n1 = "newOps @ [nextOp s0 ..< nextOp s0 + (length (take ?h ?opnds) - 1)]"
  from lfa_struct[OF lt1 blk1 ne2 rt1, of ?n1]
  obtain r2 s2 where c2: "lowerFullyAssociativeOp op (drop ?h ?opnds) ?n1 s1 =
              Some (r2, ?n1 @ [nextOp s1 ..< nextOp s1 + (length (drop ?h ?opnds) - 1)], s2)"
     and n2: "nextOp s2 = nextOp s1 + (length (drop ?h ?opnds) - 1)"
     and f2: "\<forall>j. j < nextOp s1 \<longrightarrow> j \<noteq> op \<longrightarrow> opOf s2 j = opOf s1 j"
     and o2: "opOf s2 op = (opOf s1 op)\<lparr>attrs := removeAttrL ''sv.namehint'' (attrs (opOf s1 op))\<rparr>"
    by blast
  have lt2: "op < nextOp s2" using lt1 n2 by simp
  have two2: "getAttr (opOf s2 op) ''twoState'' = getAttr (opOf s op) ''twoState''"
    using o2 two1 by (simp add: getAttr_removed)
  let ?n2 = "?n1 @ [nextOp s1 ..< nextOp s1 + (length (drop ?h ?opnds) - 1)]"
  have cb: "createBinaryNode op name r1 r2 ?n2 s2 = Some (r, n', s')"
    using "4.prems"(4) sv c1 c2 by (simp add: Let_def)
  note cp = createBinaryNode_Some[OF cb lt2]
  note ca = createBinaryNode_attrs[OF cb lt2]
  note ih1 = "4.IH"(1)[OF refl sv[symmetric] refl refl lt0 blk0 ne1 c1 rt0]
  note ih2 = "4.IH"(2)[OF refl sv[symmetric] refl refl c1 refl refl lt1 blk1 ne2 c2 rt1]
  show ?case
  proof (intro allI impI)
    fix i assume i: "nextOp s \<le> i" "i < nextOp s'"
    consider "i < nextOp s1" | "nextOp s1 \<le> i" "i < nextOp s2" | "i = nextOp s2"
      using i cp by force
    then show "getAttr (opOf s' i) ''twoState'' = getAttr (opOf s op) ''twoState'' \<and>
      getAttr (opOf s' i) ''sv.namehint'' =
        (if i = nextOp s' - 1 then getAttr (opOf s op) ''sv.namehint'' else None)"
    proof cases
      case 1
      then have eq: "opOf s' i = opOf s1 i" using cp f2 lt0 n2 i sp(2) by auto
      have a: "nextOp s0 \<le> i" using i sp(2) by simp
      have ne: "i \<noteq> nextOp s' - 1" using 1 cp n2 by simp
      from ih1[rule_format, OF a 1] have
        "getAttr (opOf s1 i) ''twoState'' = getAttr (opOf s0 op) ''twoState''"
        "getAttr (opOf s1 i) ''sv.namehint'' = None"
        using hint0 by (simp_all split: if_splits)
      then show ?thesis using eq ne two0 by simp
    next
      case 2
      then have eq: "opOf s' i = opOf s2 i" using cp by auto
      have ne: "i \<noteq> nextOp s' - 1" using 2 cp by simp
      from ih2[rule_format, OF 2] have
        "getAttr (opOf s2 i) ''twoState'' = getAttr (opOf s1 op) ''twoState''"
        "getAttr (opOf s2 i) ''sv.namehint'' = None"
        using hint1 by (simp_all split: if_splits)
      then show ?thesis using eq ne two1 by simp
    next
      case 3
      have e: "i = nextOp s' - 1" using 3 cp by simp
      show ?thesis using 3 e ca two2 sp(1) by simp
    qed
  qed
qed

subsection \<open>Use lists under the store primitives\<close>




lemma sameButOperands_refl [simp]: "sameButOperands p p" by (simp add: sameButOperands_def)
lemma sameButOperands_upd [simp]: "sameButOperands (p\<lparr>operands := x\<rparr>) q = sameButOperands p q"
  by (simp add: sameButOperands_def)











lemma blocks_dropOperandUses: "blocks (dropOperandUses i k vs s) = blocks s"
  by (induction vs arbitrary: k s) (auto simp: dropUse_def)




subsection \<open>Balancing keeps the store well formed\<close>









lemma opOf_attrs_upd:
  "ops s i \<noteq> None \<Longrightarrow> opOf (setAttr i n a s) j =
     (if j = i then (opOf s i)\<lparr>attrs := setAttrL n a (attrs (opOf s i))\<rparr> else opOf s j)"
  by (simp add: setAttr_def opOf_updOp)







lemma blockOf_dropOperandUses: "blockOf (dropOperandUses i k vs s) b = blockOf s b"
  by (simp add: blockOf_def blocks_dropOperandUses)




subsection \<open>Evaluating the example graphs\<close>

lemmas prim_defs = emptyIR_def addRegionBlock_def createOp_def builderCreate_def insertOp_def
  updOp_def updBlock_def addUse_def opOf_def blockOf_def getAttr_def removeAttr_def setAttr_def
  removeAttrL_def setAttrL_def saveTopLevelName_def createBinaryNode_def getType_def Let_def

lemma exAdd5_balanced:
  "map_option fst (lowerFullyAssociativeOp 1 (operands (opOf exAdd5 1)) [] exAdd5)
     = Some (OpResult 6 0)"
  "map_option (\<lambda>x. fst (snd x)) (lowerFullyAssociativeOp 1 (operands (opOf exAdd5 1)) [] exAdd5)
     = Some [3, 4, 5, 6]"
  by (simp_all add: exAdd5_def prim_defs)







lemmas step_defs = balanceStep_def shouldBalance_def getNameDialect_def combMemoryEffectFree_def
  isCommutative_def replaceAllUsesWith_def setUse_def dropUse_def eraseOp_def unlinkOp_def


lemma exAdd5_step:
  "(case balanceStep combMemoryEffectFree 1 exAdd5 of
      Continue front s' \<Rightarrow>
        front = 3 \<and> blockOps (blockOf s' 0) = [3, 4, 5, 6, 2] \<and> ops s' 1 = None \<and>
        map (\<lambda>i. operands (opOf s' i)) [3, 4, 5, 6, 2] =
          [[BlockArgument 0 0, BlockArgument 0 1],
           [BlockArgument 0 3, BlockArgument 0 4],
           [BlockArgument 0 2, OpResult 4 0],
           [OpResult 3 0, OpResult 5 0],
           [OpResult 6 0]] \<and>
        useList s' (OpResult 6 0) = [(2, 0)] \<and> useList s' (OpResult 1 0) = []
    | _ \<Rightarrow> False)"
  by (simp add: step_defs exAdd5_def prim_defs)

subsection \<open>Two's-complement negation\<close>

lemma apNeg_cancel: "combSub w x (apValue (apNeg (APInt w v))) = combAdd w x (apValue (APInt w v))"
proof -
  let ?m = "(2::nat) ^ w"
  let ?c = "v mod ?m"
  have c: "?c < ?m" by simp
  have "(x mod ?m + (?m - ((?m - ?c) mod ?m) mod ?m)) mod ?m = (x + ?c) mod ?m"
  proof (cases "?c = 0")
    case True
    then show ?thesis by simp
  next
    case False
    then have "(?m - ?c) mod ?m = ?m - ?c" using c by simp
    moreover have "?m - (?m - ?c) = ?c" using c by simp
    ultimately show ?thesis by (simp add: mod_add_left_eq)
  qed
  then show ?thesis by (simp add: combSub_def combAdd_def mod_add_right_eq)
qed

lemma apNeg_positive:
  assumes "isNegative (APInt w v)" "v mod 2 ^ w \<noteq> 2 ^ (w - 1)"
  shows "\<not> isNegative (apNeg (APInt w v))" "apSigned (apNeg (APInt w v)) = - apSigned (APInt w v)"
    "0 < apSigned (apNeg (APInt w v))"
proof -
  let ?m = "(2::nat) ^ w"
  let ?c = "v mod ?m"
  have w: "0 < w" and lo: "2 ^ (w - 1) < ?c" and c: "?c < ?m" using assms by auto
  have m: "?m = 2 * 2 ^ (w - 1)" using w by (cases w) auto
  have n: "(?m - ?c) mod ?m = ?m - ?c" using lo c by simp
  have small: "?m - ?c < 2 ^ (w - 1)" using lo c m by linarith
  show 1: "\<not> isNegative (apNeg (APInt w v))" using small n by simp
  have neg: "isNegative (APInt w v)" by (rule assms(1))
  show 2: "apSigned (apNeg (APInt w v)) = - apSigned (APInt w v)"
    using 1 neg n c by (simp add: apSigned_def of_nat_diff)
  have "apSigned (APInt w v) < 0" using neg c by (simp add: apSigned_def)
  then show "0 < apSigned (apNeg (APInt w v))" using 2 by simp
qed




subsection \<open>Reusing a declaration\<close>






section \<open>Claims\<close>




text \<open>
  C6, as stated, fails: on the five-operand two-state add \<open>exAdd5\<close> the root of the new tree is
  node 6, and the intermediate nodes 3, 4 and 5 carry the \<^verbatim>\<open>twoState\<close> marker as well.
\<close>

theorem lowerFullyAssociativeOp_twoState_counterexample:
  "map_option fst (lowerFullyAssociativeOp 1 (operands (opOf exAdd5 1)) [] exAdd5)
     = Some (OpResult 6 0)
   \<and> newOpsCarrying ''twoState'' (lowerFullyAssociativeOp 1 (operands (opOf exAdd5 1)) [] exAdd5)
     = [3, 4, 5, 6]"
  by (simp add: newOpsCarrying_def exAdd5_def prim_defs)

text \<open>
  C6, amended. When an \<open>N\<close>-ary node (\<open>N > 2\<close>; it has a result, as the guard of the
  balancing step requires) is balanced, the name hint of the original
  node is carried by the root of the new tree only, and no other new node has a name hint;
  the \<^verbatim>\<open>twoState\<close> marker of the original node is carried by every node of the new tree.
\<close>

theorem lowerFullyAssociativeOp_markers:
  assumes "2 < length (operands (opOf s op))"
    and "op < nextOp s"
    and "opBlock (opOf s op) = Some b"
    and "resultTypes (opOf s op) \<noteq> []"
  shows "\<exists>r newOps s'.
      lowerFullyAssociativeOp op (operands (opOf s op)) [] s = Some (r, newOps, s')
    \<and> newOps \<noteq> [] \<and> r = OpResult (last newOps) 0
    \<and> (\<forall>i\<in>set newOps.
          getAttr (opOf s' i) ''twoState'' = getAttr (opOf s op) ''twoState''
        \<and> getAttr (opOf s' i) ''sv.namehint'' =
            (if OpResult i 0 = r then getAttr (opOf s op) ''sv.namehint'' else None))"
proof -
  let ?opnds = "operands (opOf s op)"
  have ne: "?opnds \<noteq> []" using assms(1) by auto
  from lfa_struct[OF assms(2,3) ne assms(4), of "[]"]
  obtain r s' where c: "lowerFullyAssociativeOp op ?opnds [] s =
              Some (r, [nextOp s ..< nextOp s + (length ?opnds - 1)], s')"
     and n: "nextOp s' = nextOp s + (length ?opnds - 1)"
     and r: "r = OpResult (nextOp s' - 1) 0"
    using assms(1) by auto
  let ?new = "[nextOp s ..< nextOp s + (length ?opnds - 1)]"
  have nn: "?new \<noteq> []" using assms(1) by simp
  have la: "last ?new = nextOp s' - 1" using assms(1) n by simp
  note a = lfa_attrs[OF assms(2,3) ne c assms(4)]
  have at: "\<forall>i\<in>set ?new.
          getAttr (opOf s' i) ''twoState'' = getAttr (opOf s op) ''twoState''
        \<and> getAttr (opOf s' i) ''sv.namehint'' =
            (if OpResult i 0 = r then getAttr (opOf s op) ''sv.namehint'' else None)"
    using a r n by simp
  have rl: "r = OpResult (last ?new) 0" using r la by simp
  show ?thesis
    by (intro exI[of _ r] exI[of _ ?new] exI[of _ s'] conjI c nn rl at)
qed

theorem lowerFullyAssociativeOp_markers_witness:
  "2 < length (operands (opOf exAdd5 1)) \<and> 1 < nextOp exAdd5 \<and> opBlock (opOf exAdd5 1) = Some 0
   \<and> resultTypes (opOf exAdd5 1) \<noteq> []
   \<and> (\<exists>r newOps s'.
      lowerFullyAssociativeOp 1 (operands (opOf exAdd5 1)) [] exAdd5 = Some (r, newOps, s')
    \<and> newOps \<noteq> [] \<and> r = OpResult (last newOps) 0
    \<and> (\<forall>i\<in>set newOps.
          getAttr (opOf s' i) ''twoState'' = getAttr (opOf exAdd5 1) ''twoState''
        \<and> getAttr (opOf s' i) ''sv.namehint'' =
            (if OpResult i 0 = r then getAttr (opOf exAdd5 1) ''sv.namehint'' else None)))"
proof -
  have h1: "2 < length (operands (opOf exAdd5 1))" by (simp add: exAdd5_def prim_defs)
  have h3: "1 < nextOp exAdd5" by (simp add: exAdd5_def prim_defs)
  have h4: "opBlock (opOf exAdd5 1) = Some 0" by (simp add: exAdd5_def prim_defs)
  have h5: "resultTypes (opOf exAdd5 1) \<noteq> []" by (simp add: exAdd5_def prim_defs)
  show ?thesis
    by (intro conjI h1 h3 h4 h5 lowerFullyAssociativeOp_markers[OF h1 h3 h4 h5])
qed




end
